theory Spec2Isabelle
  imports Main
begin

section \<open>Decoded JSON and the Python operations the module applies to it\<close>

text \<open>
  \<^verbatim>\<open>github3/pulls.py\<close> receives every payload as the result of decoding a JSON
  document: \<^verbatim>\<open>None\<close>, a boolean, a number, a string, a list or a dict with string
  keys. Numbers are the integers (a JSON fraction is outside this model). A string is a
  list of characters, each a code point below 256 (text beyond Latin-1 is outside this
  model). A dict is an association list read through \<open>map_of\<close>; its keys are meant to
  be distinct.
\<close>

datatype json =
    JNull
  | JBool bool
  | JNum int
  | JStr string
  | JArr "json list"
  | JObj "(string \<times> json) list"

text \<open>The exceptions that the module or its collaborators raise.\<close>

datatype error =
    AttributeError
  | TypeError
  | KeyError
  | NameError
  | AuthorizationError
  | TransportError
  | CollaboratorError

text \<open>\<^verbatim>\<open>bool(v)\<close>: what \<^verbatim>\<open>if v:\<close>, \<^verbatim>\<open>v or d\<close> and \<^verbatim>\<open>x if v else y\<close> test.\<close>

fun truthy :: "json \<Rightarrow> bool" where
  "truthy JNull = False"
| "truthy (JBool b) = b"
| "truthy (JNum n) = (n \<noteq> 0)"
| "truthy (JStr s) = (s \<noteq> [])"
| "truthy (JArr xs) = (xs \<noteq> [])"
| "truthy (JObj kvs) = (kvs \<noteq> [])"

text \<open>\<^verbatim>\<open>d.get(k)\<close> and \<^verbatim>\<open>d.get(k, default)\<close> on a dict \<open>d\<close>: the default only
  stands in for a key that is absent, a key bound to \<^verbatim>\<open>None\<close> yields \<^verbatim>\<open>None\<close>.\<close>

definition dict_get_default :: "(string \<times> json) list \<Rightarrow> string \<Rightarrow> json \<Rightarrow> json" where
  "dict_get_default d k dflt = (case map_of d k of None \<Rightarrow> dflt | Some v \<Rightarrow> v)"

definition dict_get :: "(string \<times> json) list \<Rightarrow> string \<Rightarrow> json" where
  "dict_get d k = dict_get_default d k JNull"

text \<open>\<^verbatim>\<open>v.get(k)\<close> on any value: only a dict has the method.\<close>

fun get_attr :: "json \<Rightarrow> string \<Rightarrow> error + json" where
  "get_attr (JObj d) k = Inr (dict_get d k)"
| "get_attr v k = Inl AttributeError"

text \<open>\<^verbatim>\<open>v[k]\<close> with a string key: a dict without the key raises \<^verbatim>\<open>KeyError\<close>, every
  other value raises \<^verbatim>\<open>TypeError\<close> (not subscriptable, or indices must be integers).\<close>

fun subscript :: "json \<Rightarrow> string \<Rightarrow> error + json" where
  "subscript (JObj d) k = (case map_of d k of None \<Rightarrow> Inl KeyError | Some v \<Rightarrow> Inr v)"
| "subscript v k = Inl TypeError"

text \<open>\<^verbatim>\<open>for l in v\<close>: a list yields its elements, a string its characters, a dict its
  keys; nothing else is iterable.\<close>

fun iterate :: "json \<Rightarrow> error + json list" where
  "iterate (JArr xs) = Inr xs"
| "iterate (JStr s) = Inr (map (\<lambda>c. JStr [c]) s)"
| "iterate (JObj d) = Inr (map (\<lambda>kv. JStr (fst kv)) d)"
| "iterate v = Inl TypeError"

text \<open>A list comprehension \<^verbatim>\<open>[f(l) for l in xs]\<close>: the first call that raises ends it.\<close>

fun comprehension :: "('a \<Rightarrow> error + 'b) \<Rightarrow> 'a list \<Rightarrow> error + 'b list" where
  "comprehension f [] = Inr []"
| "comprehension f (x # xs) =
     (case f x of
        Inl e \<Rightarrow> Inl e
      | Inr y \<Rightarrow> (case comprehension f xs of Inl e \<Rightarrow> Inl e | Inr ys \<Rightarrow> Inr (y # ys)))"

subsection \<open>\<^verbatim>\<open>str.replace\<close> and \<^verbatim>\<open>str.join\<close>\<close>

text \<open>\<^verbatim>\<open>s.replace(old, new)\<close> replaces every occurrence of \<open>old\<close>, scanning from the
  left and resuming after each replaced occurrence; an empty \<open>old\<close> matches before every
  character and at the end.\<close>

function str_replace :: "string \<Rightarrow> string \<Rightarrow> string \<Rightarrow> string" where
  "str_replace old new [] = (if old = [] then new else [])"
| "str_replace old new (c # cs) =
     (if old = [] then new @ c # str_replace old new cs
      else if take (length old) (c # cs) = old
        then new @ str_replace old new (drop (length old) (c # cs))
      else c # str_replace old new cs)"
  by pat_completeness auto
termination
  by (relation "measure (\<lambda>(old, new, s). length s)") auto

text \<open>\<^verbatim>\<open>sep.join(parts)\<close> on strings.\<close>

fun str_join :: "string \<Rightarrow> string list \<Rightarrow> string" where
  "str_join sep [] = []"
| "str_join sep [x] = x"
| "str_join sep (x # y # ys) = x @ sep @ str_join sep (y # ys)"

subsection \<open>\<^verbatim>\<open>re.match\<close> on the constructs of the issue-URL pattern\<close>

text \<open>
  The regular expressions of Python's \<^verbatim>\<open>re\<close> that the module's one pattern is built from:
  a literal text, a greedy \<^verbatim>\<open>+\<close> over a character class, a sequence, an alternation, an
  optional part \<^verbatim>\<open>?\<close>, and a capturing group.
\<close>

datatype regex =
    Lit string
  | PlusClass "char \<Rightarrow> bool"
  | Seq regex regex
  | Alt regex regex
  | Opt regex
  | Group regex

text \<open>
  \<open>matches r s\<close> lists every way in which \<open>r\<close> matches a prefix of \<open>s\<close>, as (matched
  text, captured groups, rest of the input), in the order in which the backtracking
  matcher tries them: a greedy \<^verbatim>\<open>+\<close> the longest run first, an alternation its left branch
  first, an optional part present before absent. Groups are listed by their opening
  parenthesis.
\<close>

fun matches :: "regex \<Rightarrow> string \<Rightarrow> (string \<times> string list \<times> string) list" where
  "matches (Lit w) s = (if take (length w) s = w then [(w, [], drop (length w) s)] else [])"
| "matches (PlusClass p) [] = []"
| "matches (PlusClass p) (c # cs) =
     (if p c then map (\<lambda>(m, g, r). (c # m, g, r)) (matches (PlusClass p) cs) @ [([c], [], cs)]
      else [])"
| "matches (Seq a b) s =
     concat (map (\<lambda>(m1, g1, r1). map (\<lambda>(m2, g2, r2). (m1 @ m2, g1 @ g2, r2)) (matches b r1))
                 (matches a s))"
| "matches (Alt a b) s = matches a s @ matches b s"
| "matches (Opt a) s = matches a s @ [([], [], s)]"
| "matches (Group a) s = map (\<lambda>(m, g, r). (m, m # g, r)) (matches a s)"

text \<open>\<^verbatim>\<open>re.match(pattern, s)\<close> anchors at the start only and keeps the first way that
  succeeds; \<^verbatim>\<open>m.groups()\<close> is the tuple of its captured groups. \<open>None\<close> is no match.\<close>

definition re_match_groups :: "regex \<Rightarrow> string \<Rightarrow> string list option" where
  "re_match_groups r s = (case matches r s of [] \<Rightarrow> None | (m, g, rest) # _ \<Rightarrow> Some g)"

text \<open>
  The classes \<^verbatim>\<open>\w\<close>, \<^verbatim>\<open>\d\<close> and \<^verbatim>\<open>\s\<close> as Python 3 reads them in a \<^verbatim>\<open>str\<close>
  pattern compiled without flags, that is Unicode-aware: \<^verbatim>\<open>\w\<close> is every character
  that \<^verbatim>\<open>str.isalnum\<close> accepts and the underscore, \<^verbatim>\<open>\d\<close> every decimal digit,
  \<^verbatim>\<open>\s\<close> every character that \<^verbatim>\<open>str.isspace\<close> accepts. A character of this model
  is a code point below 256, and the classes are given on all of them: beyond ASCII,
  \<^verbatim>\<open>\w\<close> holds the letters and numerals of Latin-1 (U+00AA, U+00B2, U+00B3, U+00B5,
  U+00B9, U+00BA, U+00BC to U+00BE, U+00C0 to U+00D6, U+00D8 to U+00F6, U+00F8 to
  U+00FF), \<^verbatim>\<open>\s\<close> the separators U+001C to U+001F, the next-line character U+0085 and
  the no-break space U+00A0, and \<^verbatim>\<open>\d\<close> nothing more than \<^verbatim>\<open>0\<close> to \<^verbatim>\<open>9\<close>.
\<close>

definition in_range :: "char \<Rightarrow> char \<Rightarrow> char \<Rightarrow> bool" where
  "in_range lo hi c = ((of_char lo :: nat) \<le> of_char c \<and> (of_char c :: nat) \<le> of_char hi)"

definition is_digit :: "char \<Rightarrow> bool" where
  "is_digit c = in_range (CHR ''0'') (CHR ''9'') c"

definition is_word :: "char \<Rightarrow> bool" where
  "is_word c = (in_range (CHR ''0'') (CHR ''9'') c \<or> in_range (CHR ''A'') (CHR ''Z'') c
                 \<or> c = CHR ''_'' \<or> in_range (CHR ''a'') (CHR ''z'') c
                 \<or> c = CHR 0xAA \<or> in_range (CHR 0xB2) (CHR 0xB3) c \<or> c = CHR 0xB5
                 \<or> in_range (CHR 0xB9) (CHR 0xBA) c \<or> in_range (CHR 0xBC) (CHR 0xBE) c
                 \<or> in_range (CHR 0xC0) (CHR 0xD6) c \<or> in_range (CHR 0xD8) (CHR 0xF6) c
                 \<or> in_range (CHR 0xF8) (CHR 0xFF) c)"

definition is_space :: "char \<Rightarrow> bool" where
  "is_space c = (in_range (CHR 0x09) (CHR 0x0D) c \<or> in_range (CHR 0x1C) (CHR 0x20) c
                  \<or> c = CHR 0x85 \<or> c = CHR 0xA0)"

text \<open>The class \<^verbatim>\<open>[\w\d\-\.\:]\<close> of the host part.\<close>

definition is_host_char :: "char \<Rightarrow> bool" where
  "is_host_char c = (is_word c \<or> is_digit c \<or> c = CHR ''-'' \<or> c = CHR ''.'' \<or> c = CHR '':'')"

text \<open>The pattern of \<^verbatim>\<open>PullRequest.__init__\<close>:
  \<^verbatim>\<open>'https://[\w\d\-\.\:]+/(\S+)/(\S+)/(?:issues|pull)?/\d+'\<close>.\<close>

definition issue_url_pattern :: regex where
  "issue_url_pattern =
     Seq (Lit ''https://'')
    (Seq (PlusClass is_host_char)
    (Seq (Lit ''/'')
    (Seq (Group (PlusClass (\<lambda>c. \<not> is_space c)))
    (Seq (Lit ''/'')
    (Seq (Group (PlusClass (\<lambda>c. \<not> is_space c)))
    (Seq (Lit ''/'')
    (Seq (Opt (Alt (Lit ''issues'') (Lit ''pull'')))
    (Seq (Lit ''/'')
         (PlusClass is_digit)))))))))"

section \<open>Collaborators of the module\<close>

text \<open>Sequencing of calls that may raise: the first exception ends the computation.\<close>

definition and_then :: "error + 'a \<Rightarrow> ('a \<Rightarrow> error + 'b) \<Rightarrow> error + 'b" where
  "and_then r f = (case r of Inl e \<Rightarrow> Inl e | Inr x \<Rightarrow> f x)"

text \<open>Statements run one after the other on the object \<^verbatim>\<open>self\<close>; an exception leaves
  \<^verbatim>\<open>self\<close> as the statements before it made it.\<close>

fun run :: "('s \<Rightarrow> error + 's) list \<Rightarrow> 's \<Rightarrow> error option \<times> 's" where
  "run [] self = (None, self)"
| "run (stmt # stmts) self =
     (case stmt self of Inl e \<Rightarrow> (Some e, self) | Inr self' \<Rightarrow> run stmts self')"

text \<open>Modelled from the spec: the session of \<^verbatim>\<open>github3/session.py\<close>, which is not among the
  sources. The spec only distinguishes an authenticated caller from one without
  authentication.\<close>

record GitHubSession =
  authenticated :: bool

text \<open>
  The classes and helpers that \<^verbatim>\<open>pulls.py\<close> imports and whose code is not among the
  sources are parameters of the model:
  \<^item> \<open>User\<close> is the constructor \<^verbatim>\<open>User(json, session)\<close> of \<^verbatim>\<open>github3/users.py\<close>; it may raise;
  \<^item> \<open>URITemplate\<close> is the constructor of the \<^verbatim>\<open>uritemplate\<close> package; it may raise;
  \<^item> \<open>strptime\<close> is \<^verbatim>\<open>GitHubCore._strptime\<close>. Modelled from the spec: a timestamp is parsed
    into a date-time value, or is null if absent or unparseable, so the call does not raise;
  \<^item> \<open>transport\<close> is the HTTP transport: the response to each request. Modelled from the
    spec: a request is a verb against a URL with an optional body, a response is a status
    code and a decoded body (\<open>None\<close> when the body is empty). The body that
    \<^verbatim>\<open>dumps\<close> serialises is kept as the value it encodes.
\<close>

datatype verb = GET | PUT | PATCH

record request =
  req_verb :: verb
  req_url :: json
  req_data :: "json option"

record response =
  status_code :: int
  content :: "json option"

record ('u, 't, 'd) collaborators =
  User :: "json \<Rightarrow> GitHubSession option \<Rightarrow> error + 'u"
  URITemplate :: "json \<Rightarrow> error + 't"
  strptime :: "json \<Rightarrow> 'd option"
  transport :: "request \<Rightarrow> response"

text \<open>\<^verbatim>\<open>Label\<close> is used by \<^verbatim>\<open>PullRequest.__init__\<close> (line 137) but the module neither
  imports nor defines the name (lines 11 to 18 import \<^verbatim>\<open>match\<close>, \<^verbatim>\<open>dumps\<close>, \<^verbatim>\<open>Commit\<close>,
  \<^verbatim>\<open>GitHubObject\<close>, \<^verbatim>\<open>GitHubCore\<close>, \<^verbatim>\<open>BaseComment\<close>, \<^verbatim>\<open>User\<close>, \<^verbatim>\<open>requires_auth\<close>,
  \<^verbatim>\<open>IssueComment\<close> and \<^verbatim>\<open>URITemplate\<close>), so evaluating it raises \<^verbatim>\<open>NameError\<close>. No
  object of the class is ever built here; its type is left unspecified.\<close>

typedecl label_object

definition Label :: "json \<Rightarrow> GitHubSession \<Rightarrow> error + label_object" where
  "Label l session = Inl NameError"

section \<open>\<^verbatim>\<open>PullDestination\<close>\<close>

text \<open>The attributes of the class carry the prefix \<open>pd_\<close>.\<close>

record 'u PullDestination =
  pd_direction :: string
  pd_ref :: json
  pd_label :: json
  pd_user :: "'u option"
  pd_sha :: json
  pd_repo_name :: json
  pd_repo_owner :: json
  pd_repo :: "json \<times> json"

text \<open>\<^verbatim>\<open>PullDestination.__init__(self, dest, direction)\<close>, lines 29 to 48. The object is
  only ever built afresh, so an exception leaves no object behind.\<close>

definition PullDestination_init ::
  "('u, 't, 'd) collaborators \<Rightarrow> json \<Rightarrow> string \<Rightarrow> error + 'u PullDestination" where
  "PullDestination_init E dest direction =
     and_then (get_attr dest ''ref'') (\<lambda>ref.
     and_then (get_attr dest ''label'') (\<lambda>label.
     and_then (get_attr dest ''user'') (\<lambda>u.
     and_then (if truthy u
               then and_then (get_attr dest ''user'') (\<lambda>u'. and_then (User E u' None) (\<lambda>x. Inr (Some x)))
               else Inr None) (\<lambda>user.
     and_then (get_attr dest ''sha'') (\<lambda>sha.
     and_then (get_attr dest ''repo'') (\<lambda>repo.
     and_then (if truthy repo
               then and_then (subscript dest ''repo'') (\<lambda>r.
                    and_then (get_attr r ''name'') (\<lambda>name.
                    and_then (subscript dest ''repo'') (\<lambda>r'.
                    and_then (subscript r' ''owner'') (\<lambda>owner.
                    and_then (get_attr owner ''login'') (\<lambda>login.
                    Inr (name, login))))))
               else Inr (JStr [], JStr [])) (\<lambda>(repo_name, repo_owner).
     Inr \<lparr> pd_direction = direction, pd_ref = ref, pd_label = label, pd_user = user,
           pd_sha = sha, pd_repo_name = repo_name, pd_repo_owner = repo_owner,
           pd_repo = (repo_owner, repo_name) \<rparr>)))))))"

section \<open>\<^verbatim>\<open>PullRequest\<close>\<close>

text \<open>An attribute that holds either the decoded JSON value or the \<^verbatim>\<open>User\<close> built from it.\<close>

datatype 'u user_attr = Raw json | UserObject 'u

text \<open>The attributes of the class, in the order in which \<^verbatim>\<open>__init__\<close> assigns them, with
  the prefix \<open>pr_\<close>; \<open>pr_session\<close> is \<^verbatim>\<open>_session\<close> and \<open>pr_api\<close> is \<^verbatim>\<open>_api\<close>.\<close>

record ('u, 't, 'd) PullRequest =
  pr_session :: GitHubSession
  pr_api :: json
  pr_base :: "'u PullDestination"
  pr_body :: json
  pr_body_html :: json
  pr_body_text :: json
  pr_additions :: json
  pr_deletions :: json
  pr_closed_at :: "'d option"
  pr_comments :: json
  pr_comments_url :: json
  pr_commits :: json
  pr_commits_url :: json
  pr_created_at :: "'d option"
  pr_diff_url :: json
  pr_head :: "'u PullDestination"
  pr_html_url :: json
  pr_id :: json
  pr_labels :: "label_object list"
  pr_labels_urlt :: "'t option"
  pr_issue_url :: json
  pr_statuses_url :: json
  pr_links :: "(string \<times> json) list"
  pr_merged_at :: "'d option"
  pr_mergeable :: json
  pr_mergeable_state :: json
  pr_merge_commit_sha :: json
  pr_merged_by :: "'u option"
  pr_number :: json
  pr_patch_url :: json
  pr_review_comment_url :: "'t option"
  pr_review_comments :: json
  pr_review_comments_url :: json
  pr_repository :: "string list"
  pr_state :: json
  pr_title :: json
  pr_updated_at :: "'d option"
  pr_user :: "'u user_attr"
  pr_assignee :: "'u user_attr"

text \<open>\<^verbatim>\<open>v.get(k, default)\<close>, \<^verbatim>\<open>v.replace(old, new)\<close> and \<^verbatim>\<open>v + suffix\<close> on a decoded value:
  only a dict has \<^verbatim>\<open>get\<close>, only a string has \<^verbatim>\<open>replace\<close>, and only a string can be
  concatenated with a string.\<close>

fun get_attr_default :: "json \<Rightarrow> string \<Rightarrow> json \<Rightarrow> error + json" where
  "get_attr_default (JObj d) k dflt = Inr (dict_get_default d k dflt)"
| "get_attr_default v k dflt = Inl AttributeError"

fun py_replace :: "json \<Rightarrow> string \<Rightarrow> string \<Rightarrow> error + string" where
  "py_replace (JStr s) old new = Inr (str_replace old new s)"
| "py_replace v old new = Inl AttributeError"

fun py_concat :: "json \<Rightarrow> string \<Rightarrow> error + string" where
  "py_concat (JStr s) suffix = Inr (s @ suffix)"
| "py_concat v suffix = Inl TypeError"

text \<open>\<^verbatim>\<open>match(pattern, v)\<close> raises \<^verbatim>\<open>TypeError\<close> unless \<open>v\<close> is a string, and
  \<^verbatim>\<open>m.groups()\<close> raises \<^verbatim>\<open>AttributeError\<close> when \<open>m\<close> is \<^verbatim>\<open>None\<close>.\<close>

fun re_match :: "regex \<Rightarrow> json \<Rightarrow> error + string list option" where
  "re_match r (JStr s) = Inr (re_match_groups r s)"
| "re_match r v = Inl TypeError"

fun groups :: "string list option \<Rightarrow> error + string list" where
  "groups None = Inl AttributeError"
| "groups (Some g) = Inr g"

text \<open>\<^verbatim>\<open>C(v, ...) if v else None\<close> for a constructor \<open>C\<close>.\<close>

definition if_truthy :: "json \<Rightarrow> (json \<Rightarrow> error + 'a) \<Rightarrow> error + 'a option" where
  "if_truthy v C = (if truthy v then and_then (C v) (\<lambda>x. Inr (Some x)) else Inr None)"

text \<open>
  \<^verbatim>\<open>PullRequest.__init__(self, pull, session)\<close>, lines 99 to 211, one entry per
  statement. The call of the base class's constructor keeps the session. A local variable
  (\<^verbatim>\<open>labels_url\<close>, \<^verbatim>\<open>user\<close>, \<^verbatim>\<open>comments\<close>, \<^verbatim>\<open>m\<close>) is bound inside the statement
  that uses it. The two conditional statements at the end test the attribute that the
  statement before them has just read from the payload. The method also runs on an
  existing object (\<^verbatim>\<open>_update_\<close>), so it is a transformer of \<^verbatim>\<open>self\<close>.
\<close>

definition PullRequest_init ::
  "('u, 't, 'd) collaborators \<Rightarrow> json \<Rightarrow> GitHubSession \<Rightarrow> ('u, 't, 'd) PullRequest
     \<Rightarrow> error option \<times> ('u, 't, 'd) PullRequest" where
  "PullRequest_init E pull session = run
    [ \<lambda>self. Inr (self\<lparr>pr_session := session\<rparr>),
      \<lambda>self. and_then (get_attr_default pull ''url'' (JStr [])) (\<lambda>v. Inr (self\<lparr>pr_api := v\<rparr>)),
      \<lambda>self. and_then (get_attr pull ''base'') (\<lambda>v.
             and_then (PullDestination_init E v ''Base'') (\<lambda>b. Inr (self\<lparr>pr_base := b\<rparr>))),
      \<lambda>self. and_then (get_attr_default pull ''body'' (JStr [])) (\<lambda>v. Inr (self\<lparr>pr_body := v\<rparr>)),
      \<lambda>self. and_then (get_attr_default pull ''body_html'' (JStr [])) (\<lambda>v.
             Inr (self\<lparr>pr_body_html := v\<rparr>)),
      \<lambda>self. and_then (get_attr_default pull ''body_text'' (JStr [])) (\<lambda>v.
             Inr (self\<lparr>pr_body_text := v\<rparr>)),
      \<lambda>self. and_then (get_attr pull ''additions'') (\<lambda>v. Inr (self\<lparr>pr_additions := v\<rparr>)),
      \<lambda>self. and_then (get_attr pull ''deletions'') (\<lambda>v. Inr (self\<lparr>pr_deletions := v\<rparr>)),
      \<lambda>self. and_then (get_attr pull ''closed_at'') (\<lambda>v.
             Inr (self\<lparr>pr_closed_at := strptime E v\<rparr>)),
      \<lambda>self. and_then (get_attr pull ''comments'') (\<lambda>v. Inr (self\<lparr>pr_comments := v\<rparr>)),
      \<lambda>self. and_then (get_attr pull ''comments_url'') (\<lambda>v. Inr (self\<lparr>pr_comments_url := v\<rparr>)),
      \<lambda>self. and_then (get_attr pull ''commits'') (\<lambda>v. Inr (self\<lparr>pr_commits := v\<rparr>)),
      \<lambda>self. and_then (get_attr pull ''commits_url'') (\<lambda>v. Inr (self\<lparr>pr_commits_url := v\<rparr>)),
      \<lambda>self. and_then (get_attr pull ''created_at'') (\<lambda>v.
             Inr (self\<lparr>pr_created_at := strptime E v\<rparr>)),
      \<lambda>self. and_then (get_attr pull ''diff_url'') (\<lambda>v. Inr (self\<lparr>pr_diff_url := v\<rparr>)),
      \<lambda>self. and_then (get_attr pull ''head'') (\<lambda>v.
             and_then (PullDestination_init E v ''Head'') (\<lambda>h. Inr (self\<lparr>pr_head := h\<rparr>))),
      \<lambda>self. and_then (get_attr pull ''html_url'') (\<lambda>v. Inr (self\<lparr>pr_html_url := v\<rparr>)),
      \<lambda>self. and_then (get_attr pull ''id'') (\<lambda>v. Inr (self\<lparr>pr_id := v\<rparr>)),
      \<lambda>self. and_then (get_attr pull ''labels'') (\<lambda>v.
             and_then (iterate v) (\<lambda>ls.
             and_then (comprehension (\<lambda>l. Label l (pr_session self)) ls) (\<lambda>labels.
             Inr (self\<lparr>pr_labels := labels\<rparr>)))),
      \<lambda>self. and_then (get_attr pull ''labels_url'') (\<lambda>labels_url.
             and_then (if_truthy labels_url (URITemplate E)) (\<lambda>t.
             Inr (self\<lparr>pr_labels_urlt := t\<rparr>))),
      \<lambda>self. and_then (get_attr pull ''issue_url'') (\<lambda>v. Inr (self\<lparr>pr_issue_url := v\<rparr>)),
      \<lambda>self. and_then (get_attr pull ''statuses_url'') (\<lambda>v. Inr (self\<lparr>pr_statuses_url := v\<rparr>)),
      \<lambda>self. and_then (py_replace (pr_api self) ''pulls'' ''issues'') (\<lambda>comments_base.
             and_then (py_replace (pr_api self) ''pulls'' ''issues'') (\<lambda>issue.
             and_then (py_concat (pr_api self) ''/comments'') (\<lambda>review_comments.
             Inr (self\<lparr>pr_links :=
                   [ (''self'', pr_api self),
                     (''comments'', JStr (str_join ''/'' [comments_base, ''comments''])),
                     (''issue'', JStr issue),
                     (''html'', pr_html_url self),
                     (''review_comments'', JStr review_comments) ]\<rparr>)))),
      \<lambda>self. and_then (get_attr pull ''merged_at'') (\<lambda>v.
             Inr (self\<lparr>pr_merged_at := strptime E v\<rparr>)),
      \<lambda>self. and_then (get_attr_default pull ''mergeable'' (JBool False)) (\<lambda>v.
             Inr (self\<lparr>pr_mergeable := v\<rparr>)),
      \<lambda>self. and_then (get_attr_default pull ''mergeable_state'' (JStr [])) (\<lambda>v.
             Inr (self\<lparr>pr_mergeable_state := v\<rparr>)),
      \<lambda>self. and_then (get_attr_default pull ''merge_commit_sha'' (JStr [])) (\<lambda>v.
             Inr (self\<lparr>pr_merge_commit_sha := v\<rparr>)),
      \<lambda>self. and_then (get_attr pull ''merged_by'') (\<lambda>user.
             and_then (if_truthy user (\<lambda>u. User E u (Some (pr_session self)))) (\<lambda>m.
             Inr (self\<lparr>pr_merged_by := m\<rparr>))),
      \<lambda>self. and_then (get_attr pull ''number'') (\<lambda>v. Inr (self\<lparr>pr_number := v\<rparr>)),
      \<lambda>self. and_then (get_attr pull ''patch_url'') (\<lambda>v. Inr (self\<lparr>pr_patch_url := v\<rparr>)),
      \<lambda>self. and_then (get_attr pull ''review_comment_url'') (\<lambda>comments.
             and_then (if_truthy comments (URITemplate E)) (\<lambda>t.
             Inr (self\<lparr>pr_review_comment_url := t\<rparr>))),
      \<lambda>self. and_then (get_attr pull ''review_comments'') (\<lambda>v.
             Inr (self\<lparr>pr_review_comments := v\<rparr>)),
      \<lambda>self. and_then (get_attr pull ''review_comments_url'') (\<lambda>v.
             Inr (self\<lparr>pr_review_comments_url := v\<rparr>)),
      \<lambda>self. and_then (re_match issue_url_pattern (pr_issue_url self)) (\<lambda>m.
             and_then (groups m) (\<lambda>g. Inr (self\<lparr>pr_repository := g\<rparr>))),
      \<lambda>self. and_then (get_attr pull ''state'') (\<lambda>v. Inr (self\<lparr>pr_state := v\<rparr>)),
      \<lambda>self. and_then (get_attr pull ''title'') (\<lambda>v. Inr (self\<lparr>pr_title := v\<rparr>)),
      \<lambda>self. and_then (get_attr pull ''updated_at'') (\<lambda>v.
             Inr (self\<lparr>pr_updated_at := strptime E v\<rparr>)),
      \<lambda>self. and_then (get_attr pull ''user'') (\<lambda>v. Inr (self\<lparr>pr_user := Raw v\<rparr>)),
      \<lambda>self. and_then (get_attr pull ''user'') (\<lambda>v.
             if truthy v
             then and_then (User E v (Some (pr_session self))) (\<lambda>u.
                  Inr (self\<lparr>pr_user := UserObject u\<rparr>))
             else Inr self),
      \<lambda>self. and_then (get_attr pull ''assignee'') (\<lambda>v. Inr (self\<lparr>pr_assignee := Raw v\<rparr>)),
      \<lambda>self. and_then (get_attr pull ''assignee'') (\<lambda>v.
             if truthy v
             then and_then (User E v (Some (pr_session self))) (\<lambda>u.
                  Inr (self\<lparr>pr_assignee := UserObject u\<rparr>))
             else Inr self) ]"

text \<open>\<^verbatim>\<open>PullRequest._update_(self, pull)\<close>, lines 216 and 217.\<close>

definition PullRequest_private_update ::
  "('u, 't, 'd) collaborators \<Rightarrow> json \<Rightarrow> ('u, 't, 'd) PullRequest
     \<Rightarrow> error option \<times> ('u, 't, 'd) PullRequest" where
  "PullRequest_private_update E pull self = PullRequest_init E pull (pr_session self) self"

subsection \<open>Helpers inherited from \<^verbatim>\<open>GitHubCore\<close> and the \<^verbatim>\<open>requires_auth\<close> decorator\<close>

text \<open>
  \<^verbatim>\<open>github3/models.py\<close> and \<^verbatim>\<open>github3/decorators.py\<close> are not among the sources. A method
  call is a function of the object and of the requests sent so far; it yields the value
  returned or the exception raised, the object, and the requests sent.
\<close>

type_synonym ('u, 't, 'd, 'r) outcome = "(error + 'r) \<times> ('u, 't, 'd) PullRequest \<times> request list"

text \<open>Modelled from the spec: \<^verbatim>\<open>requires_auth\<close> of \<^verbatim>\<open>github3/decorators.py\<close>. A mutation
  invoked without authentication fails with an authorization error before any network
  call; with authentication the decorated method runs.\<close>

definition requires_auth ::
  "(('u, 't, 'd) PullRequest \<Rightarrow> request list \<Rightarrow> ('u, 't, 'd, 'r) outcome)
     \<Rightarrow> ('u, 't, 'd) PullRequest \<Rightarrow> request list \<Rightarrow> ('u, 't, 'd, 'r) outcome" where
  "requires_auth method self sent =
     (if authenticated (pr_session self) then method self sent
      else (Inl AuthorizationError, self, sent))"

text \<open>Modelled from the spec: \<^verbatim>\<open>GitHubCore._build_url\<close>. The sub-resource URL is the
  canonical API URL and the relative suffix joined with \<^verbatim>\<open>/\<close>.\<close>

fun GitHubCore_build_url :: "json \<Rightarrow> string list \<Rightarrow> error + string" where
  "GitHubCore_build_url (JStr base_url) parts = Inr (str_join ''/'' (base_url # parts))"
| "GitHubCore_build_url v parts = Inl TypeError"

text \<open>Modelled from the spec: \<^verbatim>\<open>GitHubCore._get\<close>, \<^verbatim>\<open>_put\<close> and \<^verbatim>\<open>_patch\<close> hand one
  request to the transport and return its response.\<close>

definition GitHubCore_request ::
  "('u, 't, 'd) collaborators \<Rightarrow> verb \<Rightarrow> json \<Rightarrow> json option \<Rightarrow> request list
     \<Rightarrow> response \<times> request list" where
  "GitHubCore_request E v url data sent =
     (let req = \<lparr> req_verb = v, req_url = url, req_data = data \<rparr>
      in (transport E req, sent @ [req]))"

definition GitHubCore_get ::
  "('u, 't, 'd) collaborators \<Rightarrow> json \<Rightarrow> request list \<Rightarrow> response \<times> request list" where
  "GitHubCore_get E url sent = GitHubCore_request E GET url None sent"

definition GitHubCore_put ::
  "('u, 't, 'd) collaborators \<Rightarrow> json \<Rightarrow> json option \<Rightarrow> request list
     \<Rightarrow> response \<times> request list" where
  "GitHubCore_put E url data sent = GitHubCore_request E PUT url data sent"

definition GitHubCore_patch ::
  "('u, 't, 'd) collaborators \<Rightarrow> json \<Rightarrow> json option \<Rightarrow> request list
     \<Rightarrow> response \<times> request list" where
  "GitHubCore_patch E url data sent = GitHubCore_request E PATCH url data sent"

text \<open>Modelled from the spec: \<^verbatim>\<open>GitHubCore._boolean(response, true_code, false_code)\<close>.
  The success status is presence, the not-found status is absence, and any other status is
  a transport error.\<close>

definition GitHubCore_boolean :: "response \<Rightarrow> int \<Rightarrow> int \<Rightarrow> error + bool" where
  "GitHubCore_boolean resp true_code false_code =
     (if status_code resp = true_code then Inr True
      else if status_code resp = false_code then Inr False
      else Inl TransportError)"

text \<open>Modelled from the spec: \<^verbatim>\<open>GitHubCore._json(response, status_code)\<close>. With the expected
  status the decoded body is returned, and an empty or absent body is \<^verbatim>\<open>None\<close>; a missing
  resource (404) is \<^verbatim>\<open>None\<close> as well; any other status is a transport error.\<close>

definition GitHubCore_json :: "response \<Rightarrow> int \<Rightarrow> error + json" where
  "GitHubCore_json resp code =
     and_then (GitHubCore_boolean resp code 404) (\<lambda>ok.
       Inr (if ok then (case content resp of None \<Rightarrow> JNull | Some body \<Rightarrow> body) else JNull))"

text \<open>Modelled from the spec: \<^verbatim>\<open>GitHubCore._remove_none(data)\<close>. The fields that are
  \<^verbatim>\<open>None\<close> are excluded from the payload entirely.\<close>

definition GitHubCore_remove_none :: "(string \<times> json) list \<Rightarrow> (string \<times> json) list" where
  "GitHubCore_remove_none data = filter (\<lambda>kv. snd kv \<noteq> JNull) data"

subsection \<open>The methods of \<^verbatim>\<open>PullRequest\<close>\<close>

text \<open>\<^verbatim>\<open>PullRequest.update(self, title=None, body=None, state=None)\<close>, lines 319 to 338.\<close>

definition PullRequest_update ::
  "('u, 't, 'd) collaborators \<Rightarrow> json \<Rightarrow> json \<Rightarrow> json
     \<Rightarrow> ('u, 't, 'd) PullRequest \<Rightarrow> request list \<Rightarrow> ('u, 't, 'd, bool) outcome" where
  "PullRequest_update E title body state = requires_auth (\<lambda>self sent.
     let data = GitHubCore_remove_none [(''title'', title), (''body'', body), (''state'', state)];
         (fetched, sent') =
           (if truthy (JObj data)
            then (let (resp, sent') = GitHubCore_patch E (pr_api self) (Some (JObj data)) sent
                  in (GitHubCore_json resp 200, sent'))
            else (Inr JNull, sent))
     in case fetched of
          Inl e \<Rightarrow> (Inl e, self, sent')
        | Inr json \<Rightarrow>
            if truthy json
            then (case PullRequest_private_update E json self of
                    (Some e, self') \<Rightarrow> (Inl e, self', sent')
                  | (None, self') \<Rightarrow> (Inr True, self', sent'))
            else (Inr False, self, sent'))"

text \<open>\<^verbatim>\<open>PullRequest.close(self)\<close>, lines 219 to 225, and \<^verbatim>\<open>PullRequest.reopen(self)\<close>,
  lines 311 to 317.\<close>

definition PullRequest_close ::
  "('u, 't, 'd) collaborators \<Rightarrow> ('u, 't, 'd) PullRequest \<Rightarrow> request list
     \<Rightarrow> ('u, 't, 'd, bool) outcome" where
  "PullRequest_close E = requires_auth (\<lambda>self sent.
     PullRequest_update E (pr_title self) (pr_body self) (JStr ''closed'') self sent)"

definition PullRequest_reopen ::
  "('u, 't, 'd) collaborators \<Rightarrow> ('u, 't, 'd) PullRequest \<Rightarrow> request list
     \<Rightarrow> ('u, 't, 'd, bool) outcome" where
  "PullRequest_reopen E = requires_auth (\<lambda>self sent.
     PullRequest_update E (pr_title self) (pr_body self) (JStr ''open'') self sent)"

text \<open>\<^verbatim>\<open>PullRequest.is_merged(self)\<close>, lines 233 to 239.\<close>

definition PullRequest_is_merged ::
  "('u, 't, 'd) collaborators \<Rightarrow> ('u, 't, 'd) PullRequest \<Rightarrow> request list
     \<Rightarrow> ('u, 't, 'd, bool) outcome" where
  "PullRequest_is_merged E self sent =
     (case GitHubCore_build_url (pr_api self) [''merge''] of
        Inl e \<Rightarrow> (Inl e, self, sent)
      | Inr url \<Rightarrow>
          (let (resp, sent') = GitHubCore_get E (JStr url) sent
           in (GitHubCore_boolean resp 204 404, self, sent')))"

text \<open>\<^verbatim>\<open>PullRequest.merge(self, commit_message='')\<close>, lines 289 to 303. The value returned
  is whatever the body binds to \<^verbatim>\<open>merged\<close>.\<close>

definition PullRequest_merge ::
  "('u, 't, 'd) collaborators \<Rightarrow> json \<Rightarrow> ('u, 't, 'd) PullRequest \<Rightarrow> request list
     \<Rightarrow> ('u, 't, 'd, json) outcome" where
  "PullRequest_merge E commit_message = requires_auth (\<lambda>self sent.
     let data = (if truthy commit_message
                 then Some (JObj [(''commit_message'', commit_message)]) else None)
     in case GitHubCore_build_url (pr_api self) [''merge''] of
          Inl e \<Rightarrow> (Inl e, self, sent)
        | Inr url \<Rightarrow>
            (let (resp, sent') = GitHubCore_put E (JStr url) data sent
             in case GitHubCore_json resp 200 of
                  Inl e \<Rightarrow> (Inl e, self, sent')
                | Inr json \<Rightarrow>
                    (case subscript json ''sha'' of
                       Inl e \<Rightarrow> (Inl e, self, sent')
                     | Inr sha \<Rightarrow>
                         (let self' = self\<lparr>pr_merge_commit_sha := sha\<rparr>
                          in case subscript json ''merged'' of
                               Inl e \<Rightarrow> (Inl e, self', sent')
                             | Inr merged \<Rightarrow> (Inr merged, self', sent')))))"

section \<open>\<^verbatim>\<open>ReviewComment\<close>\<close>

text \<open>The attributes that the class itself assigns, with the prefix \<open>rc_\<close>; \<open>rc_base\<close>
  stands for the attributes set by the constructor of \<^verbatim>\<open>BaseComment\<close>.\<close>

record ('u, 'b) ReviewComment =
  rc_base :: 'b
  rc_user :: "'u option"
  rc_original_position :: json
  rc_path :: json
  rc_position :: json
  rc_commit_id :: json
  rc_diff_hunk :: json
  rc_original_commit_id :: json

text \<open>\<^verbatim>\<open>v or 0\<close>.\<close>

definition or_zero :: "json \<Rightarrow> json" where
  "or_zero v = (if truthy v then v else JNum 0)"

text \<open>\<^verbatim>\<open>ReviewComment.__init__(self, comment, session=None)\<close>, lines 357 to 381. The
  constructor of \<^verbatim>\<open>BaseComment\<close> (\<^verbatim>\<open>github3/models.py\<close>) is a parameter; it may raise. The
  constructor of \<^verbatim>\<open>User\<close> is handed the comment itself in the place of a session (line
  363); what it can take from it is the session that the base constructor has stored,
  and that is what the model hands it. The object is only ever built afresh.\<close>

definition ReviewComment_init ::
  "('u, 't, 'd) collaborators \<Rightarrow> (json \<Rightarrow> GitHubSession option \<Rightarrow> error + 'b)
     \<Rightarrow> json \<Rightarrow> GitHubSession option \<Rightarrow> error + ('u, 'b) ReviewComment" where
  "ReviewComment_init E BaseComment comment session =
     and_then (BaseComment comment session) (\<lambda>base.
     and_then (get_attr comment ''user'') (\<lambda>u.
     and_then (if truthy u
               then and_then (get_attr comment ''user'') (\<lambda>u'.
                    and_then (User E u' session) (\<lambda>x. Inr (Some x)))
               else Inr None) (\<lambda>user.
     and_then (get_attr comment ''original_position'') (\<lambda>original_position.
     and_then (get_attr comment ''path'') (\<lambda>path.
     and_then (get_attr comment ''position'') (\<lambda>position.
     and_then (get_attr comment ''commit_id'') (\<lambda>commit_id.
     and_then (get_attr comment ''diff_hunk'') (\<lambda>diff_hunk.
     and_then (get_attr comment ''original_commit_id'') (\<lambda>original_commit_id.
     Inr \<lparr> rc_base = base, rc_user = user, rc_original_position = original_position,
           rc_path = path, rc_position = or_zero position, rc_commit_id = commit_id,
           rc_diff_hunk = diff_hunk, rc_original_commit_id = original_commit_id \<rparr>)))))))))"

section \<open>The constructed pull request in closed form\<close>

text \<open>The object that \<^verbatim>\<open>PullRequest.__init__\<close> leaves when no statement raises, in closed
  form: \<open>b\<close> and \<open>h\<close> are the endpoints built from \<^verbatim>\<open>base\<close> and \<^verbatim>\<open>head\<close>, \<open>lt\<close> and \<open>rct\<close>
  the two URL templates, \<open>api\<close> the API URL, \<open>m\<close>, \<open>uo\<close> and \<open>ao\<close> the users built from
  \<^verbatim>\<open>merged_by\<close>, \<^verbatim>\<open>user\<close> and \<^verbatim>\<open>assignee\<close> (if any), \<open>url\<close> the issue URL and \<open>g\<close> the groups
  that the pattern captures in it. That \<^verbatim>\<open>__init__\<close> yields this object is proved below
  (\<open>PullRequest_init_succeeds\<close>, \<open>PullRequest_init_success_exact\<close>).\<close>

definition PullRequest_built ::
  "('u, 't, 'd) collaborators \<Rightarrow> (string \<times> json) list \<Rightarrow> GitHubSession
     \<Rightarrow> 'u PullDestination \<Rightarrow> 'u PullDestination \<Rightarrow> 't option \<Rightarrow> string \<Rightarrow> 'u option
     \<Rightarrow> 't option \<Rightarrow> string \<Rightarrow> string list \<Rightarrow> 'u option \<Rightarrow> 'u option
     \<Rightarrow> ('u, 't, 'd) PullRequest" where
  "PullRequest_built E d ses b h lt api m rct url g uo ao =
     \<lparr> pr_session = ses,
              pr_api = JStr api,
              pr_base = b,
              pr_body = dict_get_default d ''body'' (JStr []),
              pr_body_html = dict_get_default d ''body_html'' (JStr []),
              pr_body_text = dict_get_default d ''body_text'' (JStr []),
              pr_additions = dict_get d ''additions'',
              pr_deletions = dict_get d ''deletions'',
              pr_closed_at = strptime E (dict_get d ''closed_at''),
              pr_comments = dict_get d ''comments'',
              pr_comments_url = dict_get d ''comments_url'',
              pr_commits = dict_get d ''commits'',
              pr_commits_url = dict_get d ''commits_url'',
              pr_created_at = strptime E (dict_get d ''created_at''),
              pr_diff_url = dict_get d ''diff_url'',
              pr_head = h,
              pr_html_url = dict_get d ''html_url'',
              pr_id = dict_get d ''id'',
              pr_labels = [],
              pr_labels_urlt = lt,
              pr_issue_url = JStr url,
              pr_statuses_url = dict_get d ''statuses_url'',
              pr_links = [ (''self'', JStr api),
                      (''comments'', JStr (str_replace ''pulls'' ''issues'' api @ ''/comments'')),
                      (''issue'', JStr (str_replace ''pulls'' ''issues'' api)),
                      (''html'', dict_get d ''html_url''),
                      (''review_comments'', JStr (api @ ''/comments'')) ],
              pr_merged_at = strptime E (dict_get d ''merged_at''),
              pr_mergeable = dict_get_default d ''mergeable'' (JBool False),
              pr_mergeable_state = dict_get_default d ''mergeable_state'' (JStr []),
              pr_merge_commit_sha = dict_get_default d ''merge_commit_sha'' (JStr []),
              pr_merged_by = m,
              pr_number = dict_get d ''number'',
              pr_patch_url = dict_get d ''patch_url'',
              pr_review_comment_url = rct,
              pr_review_comments = dict_get d ''review_comments'',
              pr_review_comments_url = dict_get d ''review_comments_url'',
              pr_repository = g,
              pr_state = dict_get d ''state'',
              pr_title = dict_get d ''title'',
              pr_updated_at = strptime E (dict_get d ''updated_at''),
              pr_user = (case uo of None \<Rightarrow> Raw (dict_get d ''user'') | Some x \<Rightarrow> UserObject x),
              pr_assignee = (case ao of None \<Rightarrow> Raw (dict_get d ''assignee'') | Some x \<Rightarrow> UserObject x) \<rparr>"

section \<open>The shape of an issue URL that the pattern accepts\<close>


section \<open>Example objects\<close>

text \<open>An object whose attributes \<^verbatim>\<open>__init__\<close> has not assigned yet: every attribute holds
  a placeholder.\<close>

definition unset_PullDestination :: "'u PullDestination" where
  "unset_PullDestination =
     \<lparr> pd_direction = [], pd_ref = JNull, pd_label = JNull, pd_user = None, pd_sha = JNull,
       pd_repo_name = JNull, pd_repo_owner = JNull, pd_repo = (JNull, JNull) \<rparr>"

definition unset_PullRequest :: "('u, 't, 'd) PullRequest" where
  "unset_PullRequest =
     \<lparr> pr_session = \<lparr> authenticated = False \<rparr>, pr_api = JNull,
       pr_base = unset_PullDestination, pr_body = JNull, pr_body_html = JNull,
       pr_body_text = JNull, pr_additions = JNull, pr_deletions = JNull, pr_closed_at = None,
       pr_comments = JNull, pr_comments_url = JNull, pr_commits = JNull,
       pr_commits_url = JNull, pr_created_at = None, pr_diff_url = JNull,
       pr_head = unset_PullDestination, pr_html_url = JNull, pr_id = JNull, pr_labels = [],
       pr_labels_urlt = None, pr_issue_url = JNull, pr_statuses_url = JNull, pr_links = [],
       pr_merged_at = None, pr_mergeable = JNull, pr_mergeable_state = JNull,
       pr_merge_commit_sha = JNull, pr_merged_by = None, pr_number = JNull,
       pr_patch_url = JNull, pr_review_comment_url = None, pr_review_comments = JNull,
       pr_review_comments_url = JNull, pr_repository = [], pr_state = JNull, pr_title = JNull,
       pr_updated_at = None, pr_user = Raw JNull, pr_assignee = Raw JNull \<rparr>"

text \<open>Collaborators for the examples: a user, a template and a timestamp are represented
  by the JSON value they are built from, and the transport answers every request with the
  given response.\<close>

definition example_collaborators :: "response \<Rightarrow> (json, json, json) collaborators" where
  "example_collaborators resp =
     \<lparr> User = (\<lambda>v session. Inr v), URITemplate = (\<lambda>v. Inr v),
       strptime = (\<lambda>v. if truthy v then Some v else None),
       transport = (\<lambda>req. resp) \<rparr>"

definition example_session :: GitHubSession where
  "example_session = \<lparr> authenticated = True \<rparr>"

text \<open>A pull request of an authenticated session, with the attributes the methods read.\<close>

definition example_PullRequest :: "(json, json, json) PullRequest" where
  "example_PullRequest = unset_PullRequest
     \<lparr> pr_session := example_session,
       pr_api := JStr ''https://api.github.com/repos/octocat/Hello-World/pulls/1347'',
       pr_body := JStr ''Please pull these awesome changes'',
       pr_state := JStr ''open'',
       pr_title := JStr ''new-feature'' \<rparr>"

text \<open>A payload without \<^verbatim>\<open>user\<close>, \<^verbatim>\<open>assignee\<close> and \<^verbatim>\<open>merged_by\<close>.\<close>

definition example_pull :: json where
  "example_pull = JObj
     [ (''url'', JStr ''https://api.github.com/repos/octocat/Hello-World/pulls/1347''),
       (''html_url'', JStr ''https://github.com/octocat/Hello-World/pull/1347''),
       (''issue_url'', JStr ''https://api.github.com/repos/octocat/Hello-World/issues/1347''),
       (''number'', JNum 1347),
       (''state'', JStr ''open''),
       (''title'', JStr ''new-feature''),
       (''body'', JStr ''Please pull these awesome changes''),
       (''labels'', JArr []),
       (''head'', JObj [(''label'', JStr ''new-topic''), (''ref'', JStr ''new-topic'')]),
       (''base'', JObj [(''label'', JStr ''master''), (''ref'', JStr ''master'')]) ]"

text \<open>The same payload without its \<^verbatim>\<open>base\<close> endpoint.\<close>

definition example_pull_without_base :: json where
  "example_pull_without_base = JObj
     [ (''url'', JStr ''https://api.github.com/repos/octocat/Hello-World/pulls/1347''),
       (''html_url'', JStr ''https://github.com/octocat/Hello-World/pull/1347''),
       (''issue_url'', JStr ''https://api.github.com/repos/octocat/Hello-World/issues/1347''),
       (''number'', JNum 1347),
       (''state'', JStr ''open''),
       (''title'', JStr ''new-feature''),
       (''body'', JStr ''Please pull these awesome changes''),
       (''labels'', JArr []),
       (''head'', JObj [(''label'', JStr ''new-topic''), (''ref'', JStr ''new-topic'')]) ]"

text \<open>The same payload with a given API URL and given labels.\<close>

definition example_pull_with :: "string \<Rightarrow> json \<Rightarrow> json" where
  "example_pull_with url labels = JObj
     [ (''url'', JStr url),
       (''html_url'', JStr ''https://github.com/octocat/Hello-World/pull/1347''),
       (''issue_url'', JStr ''https://api.github.com/repos/octocat/Hello-World/issues/1347''),
       (''number'', JNum 1347),
       (''state'', JStr ''open''),
       (''title'', JStr ''new-feature''),
       (''body'', JStr ''Please pull these awesome changes''),
       (''labels'', labels),
       (''head'', JObj [(''label'', JStr ''new-topic''), (''ref'', JStr ''new-topic'')]),
       (''base'', JObj [(''label'', JStr ''master''), (''ref'', JStr ''master'')]) ]"


section \<open>Properties\<close>

subsection \<open>Basic facts\<close>

lemma and_then_simps [simp]:
  "and_then (Inl e) f = Inl e"
  "and_then (Inr x) f = f x"
  by (simp_all add: and_then_def)

lemma str_join_pair [simp]: "str_join sep [x, y] = x @ sep @ y"
  by simp

subsection \<open>\<^verbatim>\<open>is_merged\<close>\<close>

text \<open>
  Claim C5. \<^verbatim>\<open>PullRequest.is_merged()\<close> sends one \<^verbatim>\<open>GET\<close> to the \<^verbatim>\<open>merge\<close> sub-resource
  of the API URL; it returns \<^verbatim>\<open>True\<close> when the status is 204, \<^verbatim>\<open>False\<close> when it is 404, and
  raises a transport error for any other status; the pull request itself is left as it was.
\<close>

theorem is_merged_reads_status:
  assumes "pr_api self = JStr api"
  shows "PullRequest_is_merged E self sent =
           (let req = \<lparr> req_verb = GET, req_url = JStr (api @ ''/merge''), req_data = None \<rparr>;
                code = status_code (transport E req)
            in ((if code = 204 then Inr True
                 else if code = 404 then Inr False
                 else Inl TransportError),
                self, sent @ [req]))"
  using assms
  by (simp add: PullRequest_is_merged_def GitHubCore_get_def GitHubCore_request_def
      GitHubCore_boolean_def Let_def)

theorem is_merged_reads_status_witness:
  "PullRequest_is_merged (example_collaborators \<lparr> status_code = 404, content = None \<rparr>)
       example_PullRequest [] =
     (Inr False, example_PullRequest,
      [\<lparr> req_verb = GET,
         req_url = JStr ''https://api.github.com/repos/octocat/Hello-World/pulls/1347/merge'',
         req_data = None \<rparr>])
   \<and> fst (PullRequest_is_merged (example_collaborators \<lparr> status_code = 204, content = None \<rparr>)
       example_PullRequest []) = Inr True
   \<and> fst (PullRequest_is_merged (example_collaborators \<lparr> status_code = 500, content = None \<rparr>)
       example_PullRequest []) = Inl TransportError"
  using is_merged_reads_status
      [of example_PullRequest "''https://api.github.com/repos/octocat/Hello-World/pulls/1347''"
          "example_collaborators \<lparr> status_code = 404, content = None \<rparr>" "[]"]
    is_merged_reads_status
      [of example_PullRequest "''https://api.github.com/repos/octocat/Hello-World/pulls/1347''"
          "example_collaborators \<lparr> status_code = 204, content = None \<rparr>" "[]"]
    is_merged_reads_status
      [of example_PullRequest "''https://api.github.com/repos/octocat/Hello-World/pulls/1347''"
          "example_collaborators \<lparr> status_code = 500, content = None \<rparr>" "[]"]
  by (simp add: example_PullRequest_def example_collaborators_def Let_def)

subsection \<open>What the issue-URL pattern matches\<close>













subsection \<open>Running the constructor\<close>

lemma and_then_eq_Inr: "and_then r f = Inr y \<longleftrightarrow> (\<exists>x. r = Inr x \<and> f x = Inr y)"
  by (cases r) simp_all

lemma run_Cons_eq_None: "run (f # fs) s = (None, s') \<longleftrightarrow> (\<exists>s1. f s = Inr s1 \<and> run fs s1 = (None, s'))"
  by (cases "f s") simp_all

lemma run_Nil_eq_None: "run [] s = (None, s') \<longleftrightarrow> s' = s"
  by auto

lemma comprehension_Label_eq_Inr:
  "comprehension (\<lambda>l. Label l ses) xs = Inr ys \<longleftrightarrow> xs = [] \<and> ys = []"
  by (cases xs) (auto simp: Label_def)

lemma py_replace_eq_Inr: "py_replace v old new = Inr x \<longleftrightarrow> (\<exists>s. v = JStr s \<and> x = str_replace old new s)"
  by (cases v) auto

lemma py_concat_eq_Inr: "py_concat v suffix = Inr x \<longleftrightarrow> (\<exists>s. v = JStr s \<and> x = s @ suffix)"
  by (cases v) auto

lemma re_match_eq_Inr: "re_match r v = Inr m \<longleftrightarrow> (\<exists>s. v = JStr s \<and> m = re_match_groups r s)"
  by (cases v) auto

lemma groups_eq_Inr: "groups m = Inr g \<longleftrightarrow> m = Some g"
  by (cases m) auto

lemma get_attr_eq_Inr: "get_attr v k = Inr x \<longleftrightarrow> (\<exists>d. v = JObj d \<and> x = dict_get d k)"
  by (cases v) auto

lemma get_attr_default_eq_Inr:
  "get_attr_default v k dflt = Inr x \<longleftrightarrow> (\<exists>d. v = JObj d \<and> x = dict_get_default d k dflt)"
  by (cases v) auto

lemmas exec_simps = run_Cons_eq_None run_Nil_eq_None and_then_eq_Inr comprehension_Label_eq_Inr
  py_replace_eq_Inr py_concat_eq_Inr re_match_eq_Inr groups_eq_Inr

lemma PullRequest_init_success_needs:
  assumes "PullRequest_init E pull ses s0 = (None, s')"
  shows "\<exists>d b h lt api m rct url g.
        pull = JObj d
      \<and> PullDestination_init E (dict_get d ''base'') ''Base'' = Inr b
      \<and> PullDestination_init E (dict_get d ''head'') ''Head'' = Inr h
      \<and> iterate (dict_get d ''labels'') = Inr []
      \<and> if_truthy (dict_get d ''labels_url'') (URITemplate E) = Inr lt
      \<and> dict_get_default d ''url'' (JStr []) = JStr api
      \<and> if_truthy (dict_get d ''merged_by'') (\<lambda>v. User E v (Some ses)) = Inr m
      \<and> if_truthy (dict_get d ''review_comment_url'') (URITemplate E) = Inr rct
      \<and> dict_get d ''issue_url'' = JStr url
      \<and> re_match_groups issue_url_pattern url = Some g"
proof (cases pull)
  case (JObj d)
  show ?thesis
    using assms unfolding JObj
    by (clarsimp simp add: PullRequest_init_def exec_simps simp del: run.simps)
qed (use assms in \<open>simp_all add: PullRequest_init_def\<close>)

lemma if_truthy_eq_Inr:
  "if_truthy v C = Inr uo \<longleftrightarrow>
     (if truthy v then \<exists>x. C v = Inr x \<and> uo = Some x else uo = None)"
  by (auto simp: if_truthy_def and_then_eq_Inr)

lemma PullRequest_init_succeeds:
  assumes base: "PullDestination_init E (dict_get d ''base'') ''Base'' = Inr b"
    and head: "PullDestination_init E (dict_get d ''head'') ''Head'' = Inr h"
    and labels: "iterate (dict_get d ''labels'') = Inr []"
    and labels_url: "if_truthy (dict_get d ''labels_url'') (URITemplate E) = Inr lt"
    and url: "dict_get_default d ''url'' (JStr []) = JStr api"
    and merged_by: "if_truthy (dict_get d ''merged_by'') (\<lambda>v. User E v (Some ses)) = Inr m"
    and rct: "if_truthy (dict_get d ''review_comment_url'') (URITemplate E) = Inr rct"
    and issue_url: "dict_get d ''issue_url'' = JStr url"
    and match: "re_match_groups issue_url_pattern url = Some g"
    and user: "if_truthy (dict_get d ''user'') (\<lambda>v. User E v (Some ses)) = Inr uo"
    and assignee: "if_truthy (dict_get d ''assignee'') (\<lambda>v. User E v (Some ses)) = Inr ao"
  shows "PullRequest_init E (JObj d) ses s0 = (None, PullRequest_built E d ses b h lt api m rct url g uo ao)"
proof -
  note pre = base head labels labels_url url merged_by rct issue_url match
  show ?thesis
  proof (cases "truthy (dict_get d ''user'')"; cases "truthy (dict_get d ''assignee'')")
    assume t: "truthy (dict_get d ''user'')" "truthy (dict_get d ''assignee'')"
    from user assignee t obtain x y where
      "User E (dict_get d ''user'') (Some ses) = Inr x" "uo = Some x"
      "User E (dict_get d ''assignee'') (Some ses) = Inr y" "ao = Some y"
      by (auto simp: if_truthy_eq_Inr)
    with t pre show ?thesis
      by (cases s0) (simp add: PullRequest_init_def PullRequest_built_def)
  next
    assume t: "truthy (dict_get d ''user'')" "\<not> truthy (dict_get d ''assignee'')"
    from user assignee t obtain x where
      "User E (dict_get d ''user'') (Some ses) = Inr x" "uo = Some x" "ao = None"
      by (auto simp: if_truthy_eq_Inr)
    with t pre show ?thesis
      by (cases s0) (simp add: PullRequest_init_def PullRequest_built_def)
  next
    assume t: "\<not> truthy (dict_get d ''user'')" "truthy (dict_get d ''assignee'')"
    from user assignee t obtain y where
      "User E (dict_get d ''assignee'') (Some ses) = Inr y" "ao = Some y" "uo = None"
      by (auto simp: if_truthy_eq_Inr)
    with t pre show ?thesis
      by (cases s0) (simp add: PullRequest_init_def PullRequest_built_def)
  next
    assume t: "\<not> truthy (dict_get d ''user'')" "\<not> truthy (dict_get d ''assignee'')"
    from user assignee t have "uo = None" "ao = None"
      by (auto simp: if_truthy_eq_Inr)
    with t pre show ?thesis
      by (cases s0) (simp add: PullRequest_init_def PullRequest_built_def)
  qed
qed

lemma if_truthy_eq_Inl:
  "if_truthy v C = Inl e \<longleftrightarrow> truthy v \<and> C v = Inl e"
  by (cases "C v") (auto simp: if_truthy_def)

lemma PullRequest_init_user_raises:
  assumes base: "PullDestination_init E (dict_get d ''base'') ''Base'' = Inr b"
    and head: "PullDestination_init E (dict_get d ''head'') ''Head'' = Inr h"
    and labels: "iterate (dict_get d ''labels'') = Inr []"
    and labels_url: "if_truthy (dict_get d ''labels_url'') (URITemplate E) = Inr lt"
    and url: "dict_get_default d ''url'' (JStr []) = JStr api"
    and merged_by: "if_truthy (dict_get d ''merged_by'') (\<lambda>v. User E v (Some ses)) = Inr m"
    and rct: "if_truthy (dict_get d ''review_comment_url'') (URITemplate E) = Inr rct"
    and issue_url: "dict_get d ''issue_url'' = JStr url"
    and match: "re_match_groups issue_url_pattern url = Some g"
    and user: "if_truthy (dict_get d ''user'') (\<lambda>v. User E v (Some ses)) = Inl e"
  shows "fst (PullRequest_init E (JObj d) ses s0) = Some e"
proof -
  from user have "truthy (dict_get d ''user'')" "User E (dict_get d ''user'') (Some ses) = Inl e"
    by (simp_all add: if_truthy_eq_Inl)
  with base head labels labels_url url merged_by rct issue_url match show ?thesis
    by (simp add: PullRequest_init_def)
qed

lemma PullRequest_init_assignee_raises:
  assumes base: "PullDestination_init E (dict_get d ''base'') ''Base'' = Inr b"
    and head: "PullDestination_init E (dict_get d ''head'') ''Head'' = Inr h"
    and labels: "iterate (dict_get d ''labels'') = Inr []"
    and labels_url: "if_truthy (dict_get d ''labels_url'') (URITemplate E) = Inr lt"
    and url: "dict_get_default d ''url'' (JStr []) = JStr api"
    and merged_by: "if_truthy (dict_get d ''merged_by'') (\<lambda>v. User E v (Some ses)) = Inr m"
    and rct: "if_truthy (dict_get d ''review_comment_url'') (URITemplate E) = Inr rct"
    and issue_url: "dict_get d ''issue_url'' = JStr url"
    and match: "re_match_groups issue_url_pattern url = Some g"
    and user: "if_truthy (dict_get d ''user'') (\<lambda>v. User E v (Some ses)) = Inr uo"
    and assignee: "if_truthy (dict_get d ''assignee'') (\<lambda>v. User E v (Some ses)) = Inl e"
  shows "fst (PullRequest_init E (JObj d) ses s0) = Some e"
proof -
  note pre = base head labels labels_url url merged_by rct issue_url match
  from assignee have a: "truthy (dict_get d ''assignee'')"
      "User E (dict_get d ''assignee'') (Some ses) = Inl e"
    by (simp_all add: if_truthy_eq_Inl)
  show ?thesis
  proof (cases "truthy (dict_get d ''user'')")
    case True
    with user obtain x where "User E (dict_get d ''user'') (Some ses) = Inr x"
      by (auto simp: if_truthy_eq_Inr)
    with True a pre show ?thesis
      by (simp add: PullRequest_init_def)
  next
    case False
    with a pre show ?thesis
      by (simp add: PullRequest_init_def)
  qed
qed

lemma PullRequest_init_success_exact:
  assumes ok: "PullRequest_init E pull ses s0 = (None, s')"
  shows "\<exists>d b h lt api m rct url g uo ao.
        pull = JObj d
      \<and> PullDestination_init E (dict_get d ''base'') ''Base'' = Inr b
      \<and> PullDestination_init E (dict_get d ''head'') ''Head'' = Inr h
      \<and> iterate (dict_get d ''labels'') = Inr []
      \<and> if_truthy (dict_get d ''labels_url'') (URITemplate E) = Inr lt
      \<and> dict_get_default d ''url'' (JStr []) = JStr api
      \<and> if_truthy (dict_get d ''merged_by'') (\<lambda>v. User E v (Some ses)) = Inr m
      \<and> if_truthy (dict_get d ''review_comment_url'') (URITemplate E) = Inr rct
      \<and> dict_get d ''issue_url'' = JStr url
      \<and> re_match_groups issue_url_pattern url = Some g
      \<and> if_truthy (dict_get d ''user'') (\<lambda>v. User E v (Some ses)) = Inr uo
      \<and> if_truthy (dict_get d ''assignee'') (\<lambda>v. User E v (Some ses)) = Inr ao
      \<and> s' = PullRequest_built E d ses b h lt api m rct url g uo ao"
proof -
  from PullRequest_init_success_needs [OF ok]
  obtain d b h lt api m rct url g where pull: "pull = JObj d"
    and pre: "PullDestination_init E (dict_get d ''base'') ''Base'' = Inr b"
      "PullDestination_init E (dict_get d ''head'') ''Head'' = Inr h"
      "iterate (dict_get d ''labels'') = Inr []"
      "if_truthy (dict_get d ''labels_url'') (URITemplate E) = Inr lt"
      "dict_get_default d ''url'' (JStr []) = JStr api"
      "if_truthy (dict_get d ''merged_by'') (\<lambda>v. User E v (Some ses)) = Inr m"
      "if_truthy (dict_get d ''review_comment_url'') (URITemplate E) = Inr rct"
      "dict_get d ''issue_url'' = JStr url"
      "re_match_groups issue_url_pattern url = Some g"
    by blast
  obtain uo where user: "if_truthy (dict_get d ''user'') (\<lambda>v. User E v (Some ses)) = Inr uo"
  proof (cases "if_truthy (dict_get d ''user'') (\<lambda>v. User E v (Some ses))")
    case (Inl e)
    from PullRequest_init_user_raises [OF pre Inl, of s0] ok show ?thesis
      by (simp add: pull)
  qed
  obtain ao where assignee:
    "if_truthy (dict_get d ''assignee'') (\<lambda>v. User E v (Some ses)) = Inr ao"
  proof (cases "if_truthy (dict_get d ''assignee'') (\<lambda>v. User E v (Some ses))")
    case (Inl e)
    from PullRequest_init_assignee_raises [OF pre user Inl, of s0] ok show ?thesis
      by (simp add: pull)
  qed
  from PullRequest_init_succeeds [OF pre user assignee, of s0] ok
  have "s' = PullRequest_built E d ses b h lt api m rct url g uo ao"
    by (simp add: pull)
  with pull pre user assignee show ?thesis
    by blast
qed


subsection \<open>The pattern and the shape\<close>















lemma example_issue_url_match:
  "re_match_groups issue_url_pattern ''https://api.github.com/repos/octocat/Hello-World/issues/1347''
     = Some [''repos/octocat'', ''Hello-World'']"
  by code_simp

lemma PullRequest_built_fields:
  "pr_session (PullRequest_built E d ses b h lt api m rct url g uo ao) = ses"
  "pr_api (PullRequest_built E d ses b h lt api m rct url g uo ao) = JStr api"
  "pr_base (PullRequest_built E d ses b h lt api m rct url g uo ao) = b"
  "pr_head (PullRequest_built E d ses b h lt api m rct url g uo ao) = h"
  "pr_body (PullRequest_built E d ses b h lt api m rct url g uo ao)
     = dict_get_default d ''body'' (JStr [])"
  "pr_html_url (PullRequest_built E d ses b h lt api m rct url g uo ao) = dict_get d ''html_url''"
  "pr_labels (PullRequest_built E d ses b h lt api m rct url g uo ao) = []"
  "pr_issue_url (PullRequest_built E d ses b h lt api m rct url g uo ao) = JStr url"
  "pr_links (PullRequest_built E d ses b h lt api m rct url g uo ao) =
     [ (''self'', JStr api),
       (''comments'', JStr (str_replace ''pulls'' ''issues'' api @ ''/comments'')),
       (''issue'', JStr (str_replace ''pulls'' ''issues'' api)),
       (''html'', dict_get d ''html_url''),
       (''review_comments'', JStr (api @ ''/comments'')) ]"
  "pr_merged_by (PullRequest_built E d ses b h lt api m rct url g uo ao) = m"
  "pr_repository (PullRequest_built E d ses b h lt api m rct url g uo ao) = g"
  "pr_state (PullRequest_built E d ses b h lt api m rct url g uo ao) = dict_get d ''state''"
  "pr_title (PullRequest_built E d ses b h lt api m rct url g uo ao) = dict_get d ''title''"
  "pr_user (PullRequest_built E d ses b h lt api m rct url g uo ao)
     = (case uo of None \<Rightarrow> Raw (dict_get d ''user'') | Some x \<Rightarrow> UserObject x)"
  "pr_assignee (PullRequest_built E d ses b h lt api m rct url g uo ao)
     = (case ao of None \<Rightarrow> Raw (dict_get d ''assignee'') | Some x \<Rightarrow> UserObject x)"
  by (simp_all add: PullRequest_built_def)

subsection \<open>The repository pair\<close>

lemma PullDestination_init_plain:
  assumes "\<not> truthy (dict_get dest ''user'')" "\<not> truthy (dict_get dest ''repo'')"
  shows "PullDestination_init E (JObj dest) direction =
           Inr \<lparr> pd_direction = direction, pd_ref = dict_get dest ''ref'',
                 pd_label = dict_get dest ''label'', pd_user = None,
                 pd_sha = dict_get dest ''sha'', pd_repo_name = JStr [],
                 pd_repo_owner = JStr [], pd_repo = (JStr [], JStr []) \<rparr>"
  using assms by (simp add: PullDestination_init_def)

lemma example_pull_constructed:
  "\<exists>self'. PullRequest_init (example_collaborators resp) example_pull session self = (None, self')
      \<and> pr_repository self' = [''repos/octocat'', ''Hello-World'']
      \<and> pr_user self' = Raw JNull \<and> pr_assignee self' = Raw JNull \<and> pr_merged_by self' = None
      \<and> pr_api self' = JStr ''https://api.github.com/repos/octocat/Hello-World/pulls/1347''
      \<and> pr_title self' = JStr ''new-feature''"
  unfolding example_pull_def
  apply (rule exI, rule conjI)
   apply (rule PullRequest_init_succeeds)
             apply (simp add: dict_get_def dict_get_default_def PullDestination_init_plain)
            apply (simp add: dict_get_def dict_get_default_def PullDestination_init_plain)
           apply (simp add: dict_get_def dict_get_default_def)
          apply (simp add: dict_get_def dict_get_default_def if_truthy_def)
         apply (simp add: dict_get_def dict_get_default_def)
        apply (simp add: dict_get_def dict_get_default_def if_truthy_def)
       apply (simp add: dict_get_def dict_get_default_def if_truthy_def)
      apply (simp add: dict_get_def dict_get_default_def)
     apply (rule example_issue_url_match)
    apply (simp add: dict_get_def dict_get_default_def if_truthy_def)
   apply (simp add: dict_get_def dict_get_default_def if_truthy_def)
  apply (simp add: PullRequest_built_fields dict_get_def dict_get_default_def)
  done












subsection \<open>Absent nested objects\<close>

lemma if_truthy_JNull [simp]: "if_truthy JNull C = Inr None"
  by (simp add: if_truthy_def)

lemma PullDestination_init_nested:
  assumes "PullDestination_init E (JObj dest) direction = Inr pd"
  shows "(dict_get dest ''user'' = JNull \<longrightarrow> pd_user pd = None)
       \<and> (dict_get dest ''repo'' = JNull \<longrightarrow> pd_repo pd = (JStr [], JStr []))"
  using assms
  by (auto simp: PullDestination_init_def and_then_eq_Inr split: if_splits)

lemma nulled_payload_accepted:
  assumes ok: "PullRequest_init E (JObj d) session self = (None, self')"
    and k: "k \<in> {''user'', ''assignee'', ''merged_by''}"
    and same: "\<forall>k'. k' \<noteq> k \<longrightarrow> map_of d' k' = map_of d k'"
    and null: "dict_get d' k = JNull"
  shows "\<exists>self''. PullRequest_init E (JObj d') session self = (None, self'')
      \<and> (k = ''user'' \<longrightarrow> pr_user self'' = Raw JNull)
      \<and> (k = ''assignee'' \<longrightarrow> pr_assignee self'' = Raw JNull)
      \<and> (k = ''merged_by'' \<longrightarrow> pr_merged_by self'' = None)"
proof -
  from PullRequest_init_success_exact [OF ok]
  obtain b h lt api m rct url g uo ao where
    pre: "PullDestination_init E (dict_get d ''base'') ''Base'' = Inr b"
      "PullDestination_init E (dict_get d ''head'') ''Head'' = Inr h"
      "iterate (dict_get d ''labels'') = Inr []"
      "if_truthy (dict_get d ''labels_url'') (URITemplate E) = Inr lt"
      "dict_get_default d ''url'' (JStr []) = JStr api"
      "if_truthy (dict_get d ''merged_by'') (\<lambda>v. User E v (Some session)) = Inr m"
      "if_truthy (dict_get d ''review_comment_url'') (URITemplate E) = Inr rct"
      "dict_get d ''issue_url'' = JStr url"
      "re_match_groups issue_url_pattern url = Some g"
      "if_truthy (dict_get d ''user'') (\<lambda>v. User E v (Some session)) = Inr uo"
      "if_truthy (dict_get d ''assignee'') (\<lambda>v. User E v (Some session)) = Inr ao"
    by blast
  have eq: "dict_get d' k' = dict_get d k'" "dict_get_default d' k' x = dict_get_default d k' x"
    if "k' \<noteq> k" for k' x
  proof -
    from same that have "map_of d' k' = map_of d k'" by blast
    then show "dict_get d' k' = dict_get d k'"
      "dict_get_default d' k' x = dict_get_default d k' x"
      by (simp_all add: dict_get_def dict_get_default_def)
  qed
  from k consider "k = ''user''" | "k = ''assignee''" | "k = ''merged_by''" by blast
  then show ?thesis
  proof cases
    case 1
    have "PullRequest_init E (JObj d') session self
        = (None, PullRequest_built E d' session b h lt api m rct url g None ao)"
      by (rule PullRequest_init_succeeds) (use pre null in \<open>simp_all add: eq 1\<close>)
    then show ?thesis
      using null by (simp add: PullRequest_built_fields 1)
  next
    case 2
    have "PullRequest_init E (JObj d') session self
        = (None, PullRequest_built E d' session b h lt api m rct url g uo None)"
      by (rule PullRequest_init_succeeds) (use pre null in \<open>simp_all add: eq 2\<close>)
    then show ?thesis
      using null by (simp add: PullRequest_built_fields 2)
  next
    case 3
    have "PullRequest_init E (JObj d') session self
        = (None, PullRequest_built E d' session b h lt api None rct url g uo ao)"
      by (rule PullRequest_init_succeeds) (use pre null in \<open>simp_all add: eq 3\<close>)
    then show ?thesis
      by (simp add: PullRequest_built_fields 3)
  qed
qed

text \<open>
  Claim C7, as amended. Take a payload on which construction succeeds. If \<^verbatim>\<open>user\<close>,
  \<^verbatim>\<open>assignee\<close> or \<^verbatim>\<open>merged_by\<close> is removed from it or bound to null (every other key
  kept), construction still succeeds and the attribute is \<^verbatim>\<open>None\<close>, never a partially
  constructed user; with nothing changed this says that a key which is already absent or
  null yields \<^verbatim>\<open>None\<close>. Inside an endpoint (\<^verbatim>\<open>base\<close>, \<^verbatim>\<open>head\<close>) that is present as an
  object, an absent or null \<^verbatim>\<open>user\<close> yields \<^verbatim>\<open>None\<close> and an absent or null \<^verbatim>\<open>repo\<close> yields
  the pair of empty strings.
\<close>

theorem absent_nested_objects_yield_none:
  assumes ok: "PullRequest_init E (JObj d) session self = (None, self')"
  shows "(\<forall>k \<in> {''user'', ''assignee'', ''merged_by''}. \<forall>d'.
            (\<forall>k'. k' \<noteq> k \<longrightarrow> map_of d' k' = map_of d k') \<and> dict_get d' k = JNull \<longrightarrow>
            (\<exists>self''. PullRequest_init E (JObj d') session self = (None, self'')
               \<and> (k = ''user'' \<longrightarrow> pr_user self'' = Raw JNull)
               \<and> (k = ''assignee'' \<longrightarrow> pr_assignee self'' = Raw JNull)
               \<and> (k = ''merged_by'' \<longrightarrow> pr_merged_by self'' = None)))
       \<and> (\<forall>dest. dict_get d ''base'' = JObj dest \<longrightarrow>
              (dict_get dest ''user'' = JNull \<longrightarrow> pd_user (pr_base self') = None)
            \<and> (dict_get dest ''repo'' = JNull \<longrightarrow> pd_repo (pr_base self') = (JStr [], JStr [])))
       \<and> (\<forall>dest. dict_get d ''head'' = JObj dest \<longrightarrow>
              (dict_get dest ''user'' = JNull \<longrightarrow> pd_user (pr_head self') = None)
            \<and> (dict_get dest ''repo'' = JNull \<longrightarrow> pd_repo (pr_head self') = (JStr [], JStr [])))"
proof (intro conjI ballI allI impI)
  fix k d'
  assume "k \<in> {''user'', ''assignee'', ''merged_by''}"
    and "(\<forall>k'. k' \<noteq> k \<longrightarrow> map_of d' k' = map_of d k') \<and> dict_get d' k = JNull"
  with nulled_payload_accepted [OF ok, of k d']
  show "\<exists>self''. PullRequest_init E (JObj d') session self = (None, self'')
               \<and> (k = ''user'' \<longrightarrow> pr_user self'' = Raw JNull)
               \<and> (k = ''assignee'' \<longrightarrow> pr_assignee self'' = Raw JNull)
               \<and> (k = ''merged_by'' \<longrightarrow> pr_merged_by self'' = None)"
    by blast
next
  from PullRequest_init_success_exact [OF ok]
  obtain b h lt api m rct url g uo ao where
    b: "PullDestination_init E (dict_get d ''base'') ''Base'' = Inr b"
    and h: "PullDestination_init E (dict_get d ''head'') ''Head'' = Inr h"
    and s: "self' = PullRequest_built E d session b h lt api m rct url g uo ao"
    by blast
  have pb: "pr_base self' = b" and ph: "pr_head self' = h"
    unfolding s by (rule PullRequest_built_fields)+
  {
    fix dest
    assume "dict_get d ''base'' = JObj dest"
    with b have "PullDestination_init E (JObj dest) ''Base'' = Inr (pr_base self')"
      by (simp add: pb)
    note PullDestination_init_nested [OF this]
  }
  note base = this
  {
    fix dest
    assume "dict_get d ''head'' = JObj dest"
    with h have "PullDestination_init E (JObj dest) ''Head'' = Inr (pr_head self')"
      by (simp add: ph)
    note PullDestination_init_nested [OF this]
  }
  note head = this
  {
    fix dest
    assume a: "dict_get d ''base'' = JObj dest" "dict_get dest ''user'' = JNull"
    from base [OF a(1)] a(2) show "pd_user (pr_base self') = None" by blast
  }
  {
    fix dest
    assume a: "dict_get d ''base'' = JObj dest" "dict_get dest ''repo'' = JNull"
    from base [OF a(1)] a(2) show "pd_repo (pr_base self') = (JStr [], JStr [])" by blast
  }
  {
    fix dest
    assume a: "dict_get d ''head'' = JObj dest" "dict_get dest ''user'' = JNull"
    from head [OF a(1)] a(2) show "pd_user (pr_head self') = None" by blast
  }
  {
    fix dest
    assume a: "dict_get d ''head'' = JObj dest" "dict_get dest ''repo'' = JNull"
    from head [OF a(1)] a(2) show "pd_repo (pr_head self') = (JStr [], JStr [])" by blast
  }
qed

theorem absent_nested_objects_yield_none_witness:
  "pr_merged_by (snd (PullRequest_init (example_collaborators \<lparr> status_code = 200, content = None \<rparr>)
       example_pull example_session unset_PullRequest)) = None
   \<and> pr_user (snd (PullRequest_init (example_collaborators \<lparr> status_code = 200, content = None \<rparr>)
       example_pull example_session unset_PullRequest)) = Raw JNull
   \<and> pr_assignee (snd (PullRequest_init (example_collaborators \<lparr> status_code = 200, content = None \<rparr>)
       example_pull example_session unset_PullRequest)) = Raw JNull
   \<and> pd_user (pr_base (snd (PullRequest_init (example_collaborators \<lparr> status_code = 200, content = None \<rparr>)
       example_pull example_session unset_PullRequest))) = None
   \<and> pd_repo (pr_head (snd (PullRequest_init (example_collaborators \<lparr> status_code = 200, content = None \<rparr>)
       example_pull example_session unset_PullRequest))) = (JStr [], JStr [])"
proof -
  let ?E = "example_collaborators \<lparr> status_code = 200, content = None \<rparr>"
  obtain d where d: "example_pull = JObj d"
    and null: "dict_get d ''user'' = JNull" "dict_get d ''assignee'' = JNull"
      "dict_get d ''merged_by'' = JNull"
    and base: "dict_get d ''base'' = JObj [(''label'', JStr ''master''), (''ref'', JStr ''master'')]"
    and head: "dict_get d ''head'' = JObj [(''label'', JStr ''new-topic''), (''ref'', JStr ''new-topic'')]"
    by (simp add: example_pull_def dict_get_def dict_get_default_def)
  from example_pull_constructed [of "\<lparr> status_code = 200, content = None \<rparr>" example_session
      unset_PullRequest]
  obtain s where ok: "PullRequest_init ?E (JObj d) example_session unset_PullRequest = (None, s)"
    unfolding d by blast
  note T = absent_nested_objects_yield_none [OF ok]
  from T null(1) have "\<exists>self''. PullRequest_init ?E (JObj d) example_session unset_PullRequest
      = (None, self'') \<and> pr_user self'' = Raw JNull"
    by fastforce
  then have u: "pr_user s = Raw JNull" by (simp add: ok)
  from T null(2) have "\<exists>self''. PullRequest_init ?E (JObj d) example_session unset_PullRequest
      = (None, self'') \<and> pr_assignee self'' = Raw JNull"
    by fastforce
  then have a: "pr_assignee s = Raw JNull" by (simp add: ok)
  from T null(3) have "\<exists>self''. PullRequest_init ?E (JObj d) example_session unset_PullRequest
      = (None, self'') \<and> pr_merged_by self'' = None"
    by fastforce
  then have m: "pr_merged_by s = None" by (simp add: ok)
  from T base have b: "pd_user (pr_base s) = None"
    by (simp add: dict_get_def dict_get_default_def)
  from T head have h: "pd_repo (pr_head s) = (JStr [], JStr [])"
    by (simp add: dict_get_def dict_get_default_def)
  from u a m b h show ?thesis
    by (simp add: d ok)
qed

text \<open>The claim as stated fails for the endpoints themselves: on a payload without
  \<^verbatim>\<open>base\<close> the constructor of \<^verbatim>\<open>PullDestination\<close> calls \<^verbatim>\<open>get\<close> on \<^verbatim>\<open>None\<close> and
  construction raises.\<close>

theorem absent_endpoint_counterexample:
  "get_attr example_pull_without_base ''base'' = Inr JNull
   \<and> fst (PullRequest_init (example_collaborators \<lparr> status_code = 200, content = None \<rparr>)
        example_pull_without_base example_session unset_PullRequest) = Some AttributeError"
  by (simp add: example_pull_without_base_def PullRequest_init_def PullDestination_init_def
      dict_get_def dict_get_default_def)

subsection \<open>Labels\<close>



lemma example_pull_with_constructed:
  assumes "iterate labels = Inr []"
  shows "\<exists>self'. PullRequest_init (example_collaborators resp) (example_pull_with url labels)
             session self = (None, self')
      \<and> pr_links self' =
           [ (''self'', JStr url),
             (''comments'', JStr (str_replace ''pulls'' ''issues'' url @ ''/comments'')),
             (''issue'', JStr (str_replace ''pulls'' ''issues'' url)),
             (''html'', JStr ''https://github.com/octocat/Hello-World/pull/1347''),
             (''review_comments'', JStr (url @ ''/comments'')) ]
      \<and> pr_labels self' = []"
  unfolding example_pull_with_def
  apply (rule exI, rule conjI)
   apply (rule PullRequest_init_succeeds)
             apply (simp add: dict_get_def dict_get_default_def PullDestination_init_plain)
            apply (simp add: dict_get_def dict_get_default_def PullDestination_init_plain)
           apply (simp add: dict_get_def dict_get_default_def assms)
          apply (simp add: dict_get_def dict_get_default_def if_truthy_def)
         apply (simp add: dict_get_def dict_get_default_def)
        apply (simp add: dict_get_def dict_get_default_def if_truthy_def)
       apply (simp add: dict_get_def dict_get_default_def if_truthy_def)
      apply (simp add: dict_get_def dict_get_default_def)
     apply (rule example_issue_url_match)
    apply (simp add: dict_get_def dict_get_default_def if_truthy_def)
   apply (simp add: dict_get_def dict_get_default_def if_truthy_def)
  apply (simp add: PullRequest_built_fields dict_get_def dict_get_default_def)
  done





subsection \<open>The derived links\<close>

text \<open>
  Claim C1. The links of a constructed pull request: \<^verbatim>\<open>self\<close> is the API URL,
  \<^verbatim>\<open>review_comments\<close> is the API URL followed by \<^verbatim>\<open>/comments\<close>, and \<^verbatim>\<open>issue\<close> and
  \<^verbatim>\<open>comments\<close> are computed with \<^verbatim>\<open>str.replace\<close>, which replaces every occurrence of
  \<^verbatim>\<open>pulls\<close>. For the pull request number 7 of a repository named \<^verbatim>\<open>pulls-demo\<close> the
  constructor succeeds and \<^verbatim>\<open>issue\<close> names the repository \<^verbatim>\<open>issues-demo\<close>: the text is
  replaced in two places, not in the one place of the path segment.
\<close>

theorem links_replace_every_pulls:
  "\<exists>self'. PullRequest_init (example_collaborators \<lparr> status_code = 200, content = None \<rparr>)
        (example_pull_with ''https://api.github.com/repos/octocat/pulls-demo/pulls/7'' (JArr []))
        example_session unset_PullRequest = (None, self')
     \<and> map_of (pr_links self') ''self''
          = Some (JStr ''https://api.github.com/repos/octocat/pulls-demo/pulls/7'')
     \<and> map_of (pr_links self') ''issue''
          = Some (JStr ''https://api.github.com/repos/octocat/issues-demo/issues/7'')
     \<and> map_of (pr_links self') ''comments''
          = Some (JStr ''https://api.github.com/repos/octocat/issues-demo/issues/7/comments'')
     \<and> map_of (pr_links self') ''review_comments''
          = Some (JStr ''https://api.github.com/repos/octocat/pulls-demo/pulls/7/comments'')"
proof -
  have "iterate (JArr []) = Inr []" by simp
  from example_pull_with_constructed [OF this, of "\<lparr> status_code = 200, content = None \<rparr>"
      "''https://api.github.com/repos/octocat/pulls-demo/pulls/7''" example_session
      unset_PullRequest]
  obtain self' where ok: "PullRequest_init
        (example_collaborators \<lparr> status_code = 200, content = None \<rparr>)
        (example_pull_with ''https://api.github.com/repos/octocat/pulls-demo/pulls/7'' (JArr []))
        example_session unset_PullRequest = (None, self')"
    and l: "pr_links self' =
           [ (''self'', JStr ''https://api.github.com/repos/octocat/pulls-demo/pulls/7''),
             (''comments'', JStr (str_replace ''pulls'' ''issues''
                 ''https://api.github.com/repos/octocat/pulls-demo/pulls/7'' @ ''/comments'')),
             (''issue'', JStr (str_replace ''pulls'' ''issues''
                 ''https://api.github.com/repos/octocat/pulls-demo/pulls/7'')),
             (''html'', JStr ''https://github.com/octocat/Hello-World/pull/1347''),
             (''review_comments'',
                JStr (''https://api.github.com/repos/octocat/pulls-demo/pulls/7'' @ ''/comments'')) ]"
    by blast
  have r: "str_replace ''pulls'' ''issues''
             ''https://api.github.com/repos/octocat/pulls-demo/pulls/7''
           = ''https://api.github.com/repos/octocat/issues-demo/issues/7''"
    by code_simp
  show ?thesis
    apply (rule exI [of _ self'])
    unfolding l r
    using ok by simp
qed

subsection \<open>\<^verbatim>\<open>update\<close>\<close>

lemma remove_none_three:
  "GitHubCore_remove_none [(''title'', title), (''body'', body), (''state'', state)]
     = (if title = JNull then [] else [(''title'', title)])
       @ (if body = JNull then [] else [(''body'', body)])
       @ (if state = JNull then [] else [(''state'', state)])"
  by (simp add: GitHubCore_remove_none_def)

lemma PullRequest_update_sends:
  assumes auth: "authenticated (pr_session self)"
    and supplied: "title \<noteq> JNull \<or> body \<noteq> JNull \<or> state \<noteq> JNull"
  shows "PullRequest_update E title body state self sent =
     (let req = \<lparr> req_verb = PATCH, req_url = pr_api self,
                   req_data = Some (JObj (GitHubCore_remove_none
                       [(''title'', title), (''body'', body), (''state'', state)])) \<rparr>
      in case GitHubCore_json (transport E req) 200 of
           Inl e \<Rightarrow> (Inl e, self, sent @ [req])
         | Inr json \<Rightarrow>
             if truthy json
             then (case PullRequest_private_update E json self of
                     (Some e, self') \<Rightarrow> (Inl e, self', sent @ [req])
                   | (None, self') \<Rightarrow> (Inr True, self', sent @ [req]))
             else (Inr False, self, sent @ [req]))"
proof -
  from supplied have "GitHubCore_remove_none
      [(''title'', title), (''body'', body), (''state'', state)] \<noteq> []"
    by (auto simp: GitHubCore_remove_none_def)
  with auth show ?thesis
    by (simp add: PullRequest_update_def requires_auth_def GitHubCore_patch_def
        GitHubCore_request_def Let_def)
qed

lemma PullRequest_update_sent:
  assumes auth: "authenticated (pr_session self)"
    and supplied: "title \<noteq> JNull \<or> body \<noteq> JNull \<or> state \<noteq> JNull"
  shows "snd (snd (PullRequest_update E title body state self sent)) =
     sent @ [\<lparr> req_verb = PATCH, req_url = pr_api self,
                req_data = Some (JObj (GitHubCore_remove_none
                       [(''title'', title), (''body'', body), (''state'', state)])) \<rparr>]"
  unfolding PullRequest_update_sends [OF assms]
  by (simp add: Let_def split: sum.splits prod.splits option.splits)








subsection \<open>\<^verbatim>\<open>merge\<close>\<close>

text \<open>
  Claim C4. A call of \<^verbatim>\<open>merge\<close> on an authenticated session whose one request, a
  \<^verbatim>\<open>PUT\<close> to the \<^verbatim>\<open>merge\<close> sub-resource of the API URL, is answered 200 with a body that
  binds \<^verbatim>\<open>sha\<close> and \<^verbatim>\<open>merged\<close>, returns what the body binds to \<^verbatim>\<open>merged\<close> and leaves the
  object with \<^verbatim>\<open>merge_commit_sha\<close> set to what the body binds to \<^verbatim>\<open>sha\<close> and every other
  attribute as it was.
\<close>

theorem merge_stores_sha_and_returns_merged:
  assumes auth: "authenticated (pr_session self)"
    and api: "pr_api self = JStr api"
    and req: "req = \<lparr> req_verb = PUT, req_url = JStr (api @ ''/merge''),
                      req_data = (if truthy commit_message
                                  then Some (JObj [(''commit_message'', commit_message)])
                                  else None) \<rparr>"
    and status: "status_code (transport E req) = 200"
    and body: "content (transport E req) = Some (JObj body)"
    and sha: "map_of body ''sha'' = Some sha"
    and merged: "map_of body ''merged'' = Some merged"
  shows "PullRequest_merge E commit_message self sent
           = (Inr merged, self\<lparr>pr_merge_commit_sha := sha\<rparr>, sent @ [req])"
  using auth api status body sha merged unfolding req
  by (simp add: PullRequest_merge_def requires_auth_def GitHubCore_put_def
      GitHubCore_request_def GitHubCore_json_def GitHubCore_boolean_def Let_def)

text \<open>
  The theorem at the body \<^verbatim>\<open>{"sha": "abc123", "merged": false}\<close> and the commit message
  \<^verbatim>\<open>release\<close>.
\<close>

theorem merge_stores_sha_and_returns_merged_witness:
  "PullRequest_merge
     (example_collaborators \<lparr> status_code = 200,
        content = Some (JObj [(''sha'', JStr ''abc123''), (''merged'', JBool False)]) \<rparr>)
     (JStr ''release'') example_PullRequest []
   = (Inr (JBool False), example_PullRequest\<lparr>pr_merge_commit_sha := JStr ''abc123''\<rparr>,
      [\<lparr> req_verb = PUT,
         req_url = JStr ''https://api.github.com/repos/octocat/Hello-World/pulls/1347/merge'',
         req_data = Some (JObj [(''commit_message'', JStr ''release'')]) \<rparr>])"
  using merge_stores_sha_and_returns_merged
    [of example_PullRequest "''https://api.github.com/repos/octocat/Hello-World/pulls/1347''"
        "\<lparr> req_verb = PUT,
           req_url = JStr ''https://api.github.com/repos/octocat/Hello-World/pulls/1347/merge'',
           req_data = Some (JObj [(''commit_message'', JStr ''release'')]) \<rparr>"
        "JStr ''release''"
        "example_collaborators \<lparr> status_code = 200,
           content = Some (JObj [(''sha'', JStr ''abc123''), (''merged'', JBool False)]) \<rparr>"
        "[(''sha'', JStr ''abc123''), (''merged'', JBool False)]"
        "JStr ''abc123''" "JBool False" "[]"]
  by (simp add: example_PullRequest_def example_session_def example_collaborators_def)

subsection \<open>Authentication, \<^verbatim>\<open>close\<close> and \<^verbatim>\<open>reopen\<close>\<close>

text \<open>
  Claim C8. On a session without authentication, \<^verbatim>\<open>update\<close>, \<^verbatim>\<open>close\<close>, \<^verbatim>\<open>reopen\<close> and
  \<^verbatim>\<open>merge\<close> raise the authorization error, send no request and leave the object as it
  was. On an authenticated session \<^verbatim>\<open>close\<close> is \<^verbatim>\<open>update\<close> called with the current title,
  the current body and the state \<^verbatim>\<open>closed\<close>, and \<^verbatim>\<open>reopen\<close> the same with the state
  \<^verbatim>\<open>open\<close>; each sends one \<^verbatim>\<open>PATCH\<close> to the API URL whose payload holds the state and,
  unless they are \<^verbatim>\<open>None\<close>, the current title and body.
\<close>

theorem mutations_require_authentication:
  "(\<not> authenticated (pr_session self) \<longrightarrow>
        PullRequest_update E title body state self sent = (Inl AuthorizationError, self, sent)
      \<and> PullRequest_close E self sent = (Inl AuthorizationError, self, sent)
      \<and> PullRequest_reopen E self sent = (Inl AuthorizationError, self, sent)
      \<and> PullRequest_merge E commit_message self sent = (Inl AuthorizationError, self, sent))
   \<and> (authenticated (pr_session self) \<longrightarrow>
        PullRequest_close E self sent
          = PullRequest_update E (pr_title self) (pr_body self) (JStr ''closed'') self sent
      \<and> PullRequest_reopen E self sent
          = PullRequest_update E (pr_title self) (pr_body self) (JStr ''open'') self sent
      \<and> snd (snd (PullRequest_close E self sent))
          = sent @ [\<lparr> req_verb = PATCH, req_url = pr_api self,
                       req_data = Some (JObj
                         ((if pr_title self = JNull then [] else [(''title'', pr_title self)])
                        @ (if pr_body self = JNull then [] else [(''body'', pr_body self)])
                        @ [(''state'', JStr ''closed'')])) \<rparr>]
      \<and> snd (snd (PullRequest_reopen E self sent))
          = sent @ [\<lparr> req_verb = PATCH, req_url = pr_api self,
                       req_data = Some (JObj
                         ((if pr_title self = JNull then [] else [(''title'', pr_title self)])
                        @ (if pr_body self = JNull then [] else [(''body'', pr_body self)])
                        @ [(''state'', JStr ''open'')])) \<rparr>])"
proof (intro conjI impI)
  assume "\<not> authenticated (pr_session self)"
  then show "PullRequest_update E title body state self sent = (Inl AuthorizationError, self, sent)"
    "PullRequest_close E self sent = (Inl AuthorizationError, self, sent)"
    "PullRequest_reopen E self sent = (Inl AuthorizationError, self, sent)"
    "PullRequest_merge E commit_message self sent = (Inl AuthorizationError, self, sent)"
    by (simp_all add: PullRequest_update_def PullRequest_close_def PullRequest_reopen_def
        PullRequest_merge_def requires_auth_def)
next
  assume auth: "authenticated (pr_session self)"
  then show c: "PullRequest_close E self sent
          = PullRequest_update E (pr_title self) (pr_body self) (JStr ''closed'') self sent"
    and r: "PullRequest_reopen E self sent
          = PullRequest_update E (pr_title self) (pr_body self) (JStr ''open'') self sent"
    by (simp_all add: PullRequest_close_def PullRequest_reopen_def requires_auth_def)
  from auth show "snd (snd (PullRequest_close E self sent))
          = sent @ [\<lparr> req_verb = PATCH, req_url = pr_api self,
                       req_data = Some (JObj
                         ((if pr_title self = JNull then [] else [(''title'', pr_title self)])
                        @ (if pr_body self = JNull then [] else [(''body'', pr_body self)])
                        @ [(''state'', JStr ''closed'')])) \<rparr>]"
    unfolding c by (simp add: PullRequest_update_sent remove_none_three)
  from auth show "snd (snd (PullRequest_reopen E self sent))
          = sent @ [\<lparr> req_verb = PATCH, req_url = pr_api self,
                       req_data = Some (JObj
                         ((if pr_title self = JNull then [] else [(''title'', pr_title self)])
                        @ (if pr_body self = JNull then [] else [(''body'', pr_body self)])
                        @ [(''state'', JStr ''open'')])) \<rparr>]"
    unfolding r by (simp add: PullRequest_update_sent remove_none_three)
qed

text \<open>
  The theorem at the example pull request, once without and once with authentication.
\<close>

theorem mutations_require_authentication_witness:
  "PullRequest_close (example_collaborators \<lparr> status_code = 200, content = None \<rparr>)
       (example_PullRequest\<lparr>pr_session := \<lparr> authenticated = False \<rparr>\<rparr>) []
     = (Inl AuthorizationError, example_PullRequest\<lparr>pr_session := \<lparr> authenticated = False \<rparr>\<rparr>, [])
   \<and> PullRequest_merge (example_collaborators \<lparr> status_code = 200, content = None \<rparr>) (JStr [])
       (example_PullRequest\<lparr>pr_session := \<lparr> authenticated = False \<rparr>\<rparr>) []
     = (Inl AuthorizationError, example_PullRequest\<lparr>pr_session := \<lparr> authenticated = False \<rparr>\<rparr>, [])
   \<and> snd (snd (PullRequest_close (example_collaborators \<lparr> status_code = 200, content = None \<rparr>)
       example_PullRequest []))
     = [\<lparr> req_verb = PATCH,
          req_url = JStr ''https://api.github.com/repos/octocat/Hello-World/pulls/1347'',
          req_data = Some (JObj [(''title'', JStr ''new-feature''),
                                 (''body'', JStr ''Please pull these awesome changes''),
                                 (''state'', JStr ''closed'')]) \<rparr>]
   \<and> snd (snd (PullRequest_reopen (example_collaborators \<lparr> status_code = 200, content = None \<rparr>)
       example_PullRequest []))
     = [\<lparr> req_verb = PATCH,
          req_url = JStr ''https://api.github.com/repos/octocat/Hello-World/pulls/1347'',
          req_data = Some (JObj [(''title'', JStr ''new-feature''),
                                 (''body'', JStr ''Please pull these awesome changes''),
                                 (''state'', JStr ''open'')]) \<rparr>]"
proof -
  let ?E = "example_collaborators \<lparr> status_code = 200, content = None \<rparr>"
  let ?u = "example_PullRequest\<lparr>pr_session := \<lparr> authenticated = False \<rparr>\<rparr>"
  have un: "\<not> authenticated (pr_session ?u)" by simp
  have au: "authenticated (pr_session example_PullRequest)"
    "pr_title example_PullRequest = JStr ''new-feature''"
    "pr_body example_PullRequest = JStr ''Please pull these awesome changes''"
    "pr_api example_PullRequest
       = JStr ''https://api.github.com/repos/octocat/Hello-World/pulls/1347''"
    by (simp_all add: example_PullRequest_def example_session_def)
  from un mutations_require_authentication [of ?u ?E JNull JNull JNull "[]" "JStr []"]
  have "PullRequest_close ?E ?u [] = (Inl AuthorizationError, ?u, [])"
    "PullRequest_merge ?E (JStr []) ?u [] = (Inl AuthorizationError, ?u, [])"
    by blast+
  moreover
  from au(1) mutations_require_authentication
      [of example_PullRequest ?E JNull JNull JNull "[]" "JStr []"]
  have "snd (snd (PullRequest_close ?E example_PullRequest []))
          = [] @ [\<lparr> req_verb = PATCH, req_url = pr_api example_PullRequest,
                       req_data = Some (JObj
                         ((if pr_title example_PullRequest = JNull then []
                           else [(''title'', pr_title example_PullRequest)])
                        @ (if pr_body example_PullRequest = JNull then []
                           else [(''body'', pr_body example_PullRequest)])
                        @ [(''state'', JStr ''closed'')])) \<rparr>]"
    "snd (snd (PullRequest_reopen ?E example_PullRequest []))
          = [] @ [\<lparr> req_verb = PATCH, req_url = pr_api example_PullRequest,
                       req_data = Some (JObj
                         ((if pr_title example_PullRequest = JNull then []
                           else [(''title'', pr_title example_PullRequest)])
                        @ (if pr_body example_PullRequest = JNull then []
                           else [(''body'', pr_body example_PullRequest)])
                        @ [(''state'', JStr ''open'')])) \<rparr>]"
    by blast+
  ultimately show ?thesis
    by (simp add: au)
qed

subsection \<open>\<^verbatim>\<open>ReviewComment\<close>\<close>

text \<open>
  Claim C9. When the constructor of the base class and, for a non-empty \<^verbatim>\<open>user\<close>, the
  constructor of \<^verbatim>\<open>User\<close> return, construction of a review comment from a dict returns:
  its position is 0 when \<^verbatim>\<open>position\<close> is absent or null and the payload's value when that
  is truthy, and \<^verbatim>\<open>original_position\<close>, \<^verbatim>\<open>path\<close>, \<^verbatim>\<open>commit_id\<close>, \<^verbatim>\<open>diff_hunk\<close> and
  \<^verbatim>\<open>original_commit_id\<close> are the values of the payload, unmodified.
\<close>

theorem review_comment_position_defaults_to_zero:
  assumes base: "BaseComment (JObj d) session = Inr base"
    and user: "if_truthy (dict_get d ''user'') (\<lambda>v. User E v session) = Inr u"
  shows "\<exists>rc. ReviewComment_init E BaseComment (JObj d) session = Inr rc
      \<and> (map_of d ''position'' = None \<or> map_of d ''position'' = Some JNull
            \<longrightarrow> rc_position rc = JNum 0)
      \<and> (truthy (dict_get d ''position'') \<longrightarrow> rc_position rc = dict_get d ''position'')
      \<and> rc_original_position rc = dict_get d ''original_position''
      \<and> rc_path rc = dict_get d ''path''
      \<and> rc_commit_id rc = dict_get d ''commit_id''
      \<and> rc_diff_hunk rc = dict_get d ''diff_hunk''
      \<and> rc_original_commit_id rc = dict_get d ''original_commit_id''
      \<and> rc_base rc = base \<and> rc_user rc = u"
proof (cases "truthy (dict_get d ''user'')")
  case True
  with user obtain x where "User E (dict_get d ''user'') session = Inr x" "u = Some x"
    by (auto simp: if_truthy_eq_Inr)
  with True base show ?thesis
    by (auto simp: ReviewComment_init_def or_zero_def dict_get_def dict_get_default_def)
next
  case False
  with user have "u = None" by (simp add: if_truthy_def)
  with False base show ?thesis
    by (auto simp: ReviewComment_init_def or_zero_def dict_get_def dict_get_default_def)
qed

text \<open>
  The theorem at a payload without \<^verbatim>\<open>position\<close> and at one whose \<^verbatim>\<open>position\<close> is null.
\<close>

theorem review_comment_position_defaults_to_zero_witness:
  "(\<exists>rc. ReviewComment_init (example_collaborators \<lparr> status_code = 200, content = None \<rparr>)
           (\<lambda>comment session. Inr comment)
           (JObj [(''path'', JStr ''README.md''), (''commit_id'', JStr ''6dcb09b''),
                  (''diff_hunk'', JStr ''@@ -16,33 +16,40 @@''), (''original_position'', JNum 4)])
           (Some example_session) = Inr rc
        \<and> rc_position rc = JNum 0 \<and> rc_path rc = JStr ''README.md''
        \<and> rc_original_position rc = JNum 4 \<and> rc_user rc = None)
   \<and> (\<exists>rc. ReviewComment_init (example_collaborators \<lparr> status_code = 200, content = None \<rparr>)
           (\<lambda>comment session. Inr comment)
           (JObj [(''path'', JStr ''README.md''), (''position'', JNull),
                  (''user'', JObj [(''login'', JStr ''octocat'')])])
           (Some example_session) = Inr rc
        \<and> rc_position rc = JNum 0 \<and> rc_path rc = JStr ''README.md''
        \<and> rc_user rc = Some (JObj [(''login'', JStr ''octocat'')]))"
proof (intro conjI)
  let ?E = "example_collaborators \<lparr> status_code = 200, content = None \<rparr>"
  let ?d = "[(''path'', JStr ''README.md''), (''commit_id'', JStr ''6dcb09b''),
             (''diff_hunk'', JStr ''@@ -16,33 +16,40 @@''), (''original_position'', JNum 4)]"
  have "if_truthy (dict_get ?d ''user'') (\<lambda>v. User ?E v (Some example_session)) = Inr None"
    by (simp add: dict_get_def dict_get_default_def)
  from review_comment_position_defaults_to_zero
    [of "\<lambda>comment session. Inr comment" ?d "Some example_session" "JObj ?d" ?E None, OF _ this]
  show "\<exists>rc. ReviewComment_init ?E (\<lambda>comment session. Inr comment) (JObj ?d)
           (Some example_session) = Inr rc
        \<and> rc_position rc = JNum 0 \<and> rc_path rc = JStr ''README.md''
        \<and> rc_original_position rc = JNum 4 \<and> rc_user rc = None"
    by (auto simp: dict_get_def dict_get_default_def)
next
  let ?E = "example_collaborators \<lparr> status_code = 200, content = None \<rparr>"
  let ?d = "[(''path'', JStr ''README.md''), (''position'', JNull),
             (''user'', JObj [(''login'', JStr ''octocat'')])]"
  have "if_truthy (dict_get ?d ''user'') (\<lambda>v. User ?E v (Some example_session))
          = Inr (Some (JObj [(''login'', JStr ''octocat'')]))"
    by (simp add: dict_get_def dict_get_default_def if_truthy_def example_collaborators_def)
  from review_comment_position_defaults_to_zero
    [of "\<lambda>comment session. Inr comment" ?d "Some example_session" "JObj ?d" ?E
        "Some (JObj [(''login'', JStr ''octocat'')])", OF _ this]
  show "\<exists>rc. ReviewComment_init ?E (\<lambda>comment session. Inr comment) (JObj ?d)
           (Some example_session) = Inr rc
        \<and> rc_position rc = JNum 0 \<and> rc_path rc = JStr ''README.md''
        \<and> rc_user rc = Some (JObj [(''login'', JStr ''octocat'')])"
    by (auto simp: dict_get_def dict_get_default_def)
qed

end
